theory Spec2Isabelle
  imports Complex_Main "HOL-Library.AList"
begin

section \<open>The admissions perceptron: the error term\<close>

text \<open>
  The notebook \<^verbatim>\<open>StudentAdmissionsSolutions.ipynb\<close> defines
  \<^verbatim>\<open>
  def error_term_formula(x, y, output):
  #    for binary cross entropy loss
      return (y - output)*x
  \<close>
  where \<open>x\<close> is one row of features (an array), \<open>y\<close> the label of the row and
  \<open>output\<close> the prediction, both scalars. A scalar times an array is the array of the
  products (broadcasting); the arithmetic of the elements is left abstract, so nothing
  below depends on the laws of a particular number type.
\<close>

definition scalar_times :: "'a::times \<Rightarrow> 'a list \<Rightarrow> 'a list" where
  "scalar_times c v = map (\<lambda>e. c * e) v"

definition error_term_formula :: "'a::{minus,times} list \<Rightarrow> 'a \<Rightarrow> 'a \<Rightarrow> 'a list" where
  "error_term_formula x y output = scalar_times (y - output) x"

section \<open>Decimal numerals\<close>

text \<open>
  Column names (\<^verbatim>\<open>rank_1\<close>) and parameter names (\<^verbatim>\<open>hidden_layers.0.weight\<close>) contain
  numbers printed by Python's \<^verbatim>\<open>str\<close>: decimal digits, most significant first, with a
  leading minus sign for a negative integer.
\<close>

definition digit_char :: "nat \<Rightarrow> char" where
  "digit_char d = char_of (48 + d)"

function str_nat :: "nat \<Rightarrow> string" where
  "str_nat n = (if n < 10 then [digit_char n] else str_nat (n div 10) @ [digit_char (n mod 10)])"
  by pat_completeness auto
termination
  by (relation "measure id") auto

declare str_nat.simps [simp del]

definition str_int :: "int \<Rightarrow> string" where
  "str_int i = (if i < 0 then CHR ''-'' # str_nat (nat (- i)) else str_nat (nat i))"

section \<open>Tensors, state dicts and exceptions\<close>

text \<open>
  A tensor is its shape and its elements in row-major order. A state dict is the ordered
  dictionary \<^verbatim>\<open>model.state_dict()\<close> returns: parameter names with their tensors.
\<close>

record tensor =
  shape :: "nat list"
  elems :: "real list"

type_synonym state_dict = "(string \<times> tensor) list"

text \<open>
  The \<^verbatim>\<open>RuntimeError\<close> of \<^verbatim>\<open>load_state_dict\<close> lists the keys of the model that the
  state dict lacks, the keys of the state dict that the model lacks, and for every
  parameter whose sizes differ the line
  \<^verbatim>\<open>size mismatch for K: copying a param with shape S from checkpoint, the shape in current model is T\<close>.
\<close>

datatype size_mismatch = SizeMismatch string "nat list" "nat list"

record load_errors =
  missing_keys :: "string list"
  unexpected_keys :: "string list"
  size_mismatches :: "size_mismatch list"

datatype py_error =
    KeyError string
  | IndexError
  | ZeroDivisionError
  | FileNotFoundError string
  | RuntimeError load_errors

section \<open>The admissions table\<close>

text \<open>
  A data frame is its columns in order, each a name and a typed array of values: the
  admissions table has the integer columns \<^verbatim>\<open>admit\<close>, \<^verbatim>\<open>gre\<close>, \<^verbatim>\<open>rank\<close> and the
  float column \<^verbatim>\<open>gpa\<close>. Floats are modelled by reals. The frames of the notebook all
  carry the row index of \<^verbatim>\<open>data\<close>, so columns are aligned by position.
\<close>

datatype column = IntCol "int list" | FloatCol "real list"

type_synonym frame = "(string \<times> column) list"

text \<open>
  \<^verbatim>\<open>pd.get_dummies(series, prefix=p)\<close>: one indicator column for each distinct value
  of the series, in ascending order of the values, named \<^verbatim>\<open>p_value\<close>. An indicator
  holds 1 in the rows that have the value and 0 in the others (pandas stores them as
  \<^verbatim>\<open>uint8\<close> or \<^verbatim>\<open>bool\<close> according to its version; Python's \<^verbatim>\<open>True\<close> and
  \<^verbatim>\<open>False\<close> are the integers 1 and 0). How pandas prints a float value in a column
  name is the parameter \<open>float_str\<close>.
\<close>

definition indicator :: "'a \<Rightarrow> 'a list \<Rightarrow> column" where
  "indicator v vs = IntCol (map (\<lambda>r. if r = v then 1 else 0) vs)"

definition dummies :: "('a::linorder \<Rightarrow> string) \<Rightarrow> string \<Rightarrow> 'a list \<Rightarrow> frame" where
  "dummies str prefix vs =
     map (\<lambda>v. (prefix @ ''_'' @ str v, indicator v vs)) (sort (remdups vs))"

definition get_dummies_series :: "(real \<Rightarrow> string) \<Rightarrow> column \<Rightarrow> string \<Rightarrow> frame" where
  "get_dummies_series float_str col prefix =
     (case col of
        IntCol vs \<Rightarrow> dummies str_int prefix vs
      | FloatCol vs \<Rightarrow> dummies float_str prefix vs)"

text \<open>\<^verbatim>\<open>df[name]\<close>, \<^verbatim>\<open>pd.concat(frames, axis=1)\<close> and \<^verbatim>\<open>df.drop(name, axis=1)\<close>.\<close>

definition getitem :: "frame \<Rightarrow> string \<Rightarrow> py_error + column" where
  "getitem df name =
     (case map_of df name of None \<Rightarrow> Inl (KeyError name) | Some c \<Rightarrow> Inr c)"

definition concat_columns :: "frame list \<Rightarrow> frame" where
  "concat_columns dfs = concat dfs"

definition drop_column :: "frame \<Rightarrow> string \<Rightarrow> py_error + frame" where
  "drop_column df name =
     (if name \<in> fst ` set df then Inr (filter (\<lambda>c. fst c \<noteq> name) df)
      else Inl (KeyError name))"

text \<open>
  The first solution cell:
  \<^verbatim>\<open>
  one_hot_data = pd.concat([data, pd.get_dummies(data['rank'], prefix='rank')], axis=1)
  one_hot_data = one_hot_data.drop('rank', axis=1)
  \<close>
\<close>

definition one_hot_data :: "(real \<Rightarrow> string) \<Rightarrow> frame \<Rightarrow> py_error + frame" where
  "one_hot_data float_str data =
     (case getitem data ''rank'' of
        Inl e \<Rightarrow> Inl e
      | Inr rank \<Rightarrow>
          drop_column
            (concat_columns [data, get_dummies_series float_str rank ''rank'']) ''rank'')"

text \<open>
  The alternative solution cell, \<^verbatim>\<open>one_hot_data = pd.get_dummies(data, columns=['rank'])\<close>:
  pandas drops the encoded column and appends its indicator columns.
\<close>

definition one_hot_data_alt :: "(real \<Rightarrow> string) \<Rightarrow> frame \<Rightarrow> py_error + frame" where
  "one_hot_data_alt float_str data =
     (case getitem data ''rank'' of
        Inl e \<Rightarrow> Inl e
      | Inr rank \<Rightarrow>
          (case drop_column data ''rank'' of
             Inl e \<Rightarrow> Inl e
           | Inr rest \<Rightarrow>
               Inr (concat_columns [rest, get_dummies_series float_str rank ''rank''])))"

text \<open>Three rows of the admissions table, for the examples below.\<close>

definition admissions :: frame where
  "admissions =
     [(''admit'', IntCol [0, 1, 1]), (''gre'', IntCol [380, 660, 800]),
      (''gpa'', FloatCol [3.61, 3.67, 4.0]), (''rank'', IntCol [3, 3, 1])]"

section \<open>The scaling cell, with frames and arrays in a store\<close>

text \<open>
  \<^verbatim>\<open>
  # Copying our data
  processed_data = one_hot_data[:]

  # Scaling the columns
  processed_data['gre'] = processed_data['gre']/800
  processed_data['gpa'] = processed_data['gpa']/4.0
  \<close>
  Whether the second frame is independent of the first is a question of sharing, so
  frames and arrays live in a store here. A frame object binds column names to arrays;
  a Python variable holds the address of a frame object, always a live one.
  \<^item> \<^verbatim>\<open>df[:]\<close> makes a new frame object with the bindings of \<open>df\<close>: the arrays are
    shared, not duplicated.
  \<^item> \<^verbatim>\<open>df[name]\<close> is the array bound to the name, \<^verbatim>\<open>KeyError\<close> without one.
  \<^item> \<^verbatim>\<open>series / d\<close> allocates a new float array of the quotients.
  \<^item> \<^verbatim>\<open>df[name] = series\<close> binds the name to the array in the frame object \<open>df\<close>, in
    the position of the old binding, or as the last column for a new name. It writes
    into no array.
  This is pandas 2, the pandas of the Python 3.12 kernel the notebook names.
\<close>

record store =
  frames :: "(string \<times> nat) list list"
  buffers :: "column list"

definition new_frame :: "store \<Rightarrow> (string \<times> nat) list \<Rightarrow> store \<times> nat" where
  "new_frame st cols = (st\<lparr>frames := frames st @ [cols]\<rparr>, length (frames st))"

definition new_buffer :: "store \<Rightarrow> column \<Rightarrow> store \<times> nat" where
  "new_buffer st col = (st\<lparr>buffers := buffers st @ [col]\<rparr>, length (buffers st))"

definition frame_slice_all :: "store \<Rightarrow> nat \<Rightarrow> store \<times> nat" where
  "frame_slice_all st f = new_frame st (frames st ! f)"

definition frame_getitem :: "store \<Rightarrow> nat \<Rightarrow> string \<Rightarrow> py_error + nat" where
  "frame_getitem st f name =
     (case map_of (frames st ! f) name of None \<Rightarrow> Inl (KeyError name) | Some a \<Rightarrow> Inr a)"

fun col_truediv :: "column \<Rightarrow> real \<Rightarrow> column" where
  "col_truediv (IntCol vs) d = FloatCol (map (\<lambda>v. real_of_int v / d) vs)"
| "col_truediv (FloatCol vs) d = FloatCol (map (\<lambda>v. v / d) vs)"

definition series_truediv :: "store \<Rightarrow> nat \<Rightarrow> real \<Rightarrow> store \<times> nat" where
  "series_truediv st a d = new_buffer st (col_truediv (buffers st ! a) d)"

definition frame_setitem :: "store \<Rightarrow> nat \<Rightarrow> string \<Rightarrow> nat \<Rightarrow> store" where
  "frame_setitem st f name a =
     st\<lparr>frames := (frames st)[f := AList.update name a (frames st ! f)]\<rparr>"

definition scaling_cell :: "store \<Rightarrow> nat \<Rightarrow> py_error + store \<times> nat" where
  "scaling_cell st one_hot =
     (let (st1, processed_data) = frame_slice_all st one_hot in
      case frame_getitem st1 processed_data ''gre'' of
        Inl e \<Rightarrow> Inl e
      | Inr gre \<Rightarrow>
          let (st2, gre_scaled) = series_truediv st1 gre 800;
              st3 = frame_setitem st2 processed_data ''gre'' gre_scaled
          in case frame_getitem st3 processed_data ''gpa'' of
               Inl e \<Rightarrow> Inl e
             | Inr gpa \<Rightarrow>
                 let (st4, gpa_scaled) = series_truediv st3 gpa 4.0;
                     st5 = frame_setitem st4 processed_data ''gpa'' gpa_scaled
                 in Inr (st5, processed_data))"

text \<open>
  What a frame object holds, read through the store; a frame object of a well-formed
  store has distinct column names bound to allocated arrays.
\<close>

definition read_frame :: "store \<Rightarrow> nat \<Rightarrow> frame" where
  "read_frame st f = map (\<lambda>(name, a). (name, buffers st ! a)) (frames st ! f)"

definition valid_frame :: "store \<Rightarrow> nat \<Rightarrow> bool" where
  "valid_frame st f \<longleftrightarrow>
     f < length (frames st) \<and> distinct (map fst (frames st ! f)) \<and>
     (\<forall>a \<in> snd ` set (frames st ! f). a < length (buffers st))"

fun col_values :: "column \<Rightarrow> real list" where
  "col_values (IntCol vs) = map real_of_int vs"
| "col_values (FloatCol vs) = vs"

text \<open>
  The table the scaling is expected to produce: \<^verbatim>\<open>gre\<close> over 800, \<^verbatim>\<open>gpa\<close> over 4.0,
  every other column as it was.
\<close>

definition scaled :: "frame \<Rightarrow> frame" where
  "scaled df = map (\<lambda>(name, c).
     if name = ''gre'' then (name, col_truediv c 800)
     else if name = ''gpa'' then (name, col_truediv c 4.0) else (name, c)) df"

text \<open>A store with one frame of two rows, for the examples below.\<close>

definition store0 :: store where
  "store0 = \<lparr>frames = [ [(''admit'', 0), (''gre'', 1), (''gpa'', 2), (''rank_1'', 3)] ],
     buffers = [IntCol [0, 1], IntCol [380, 800], FloatCol [3.61, 4.0], IntCol [0, 1]]\<rparr>"

section \<open>Networks and their state dicts\<close>

text \<open>
  A linear layer holds a weight of shape \<open>[out_features, in_features]\<close> and a bias of
  shape \<open>[out_features]\<close>. The values \<^verbatim>\<open>nn.Linear\<close> draws for a new parameter are
  the parameter \<open>init\<close>, by the name of the parameter in the network and its shape.
\<close>

record linear =
  in_features :: nat
  out_features :: nat
  weight :: tensor
  bias :: tensor

type_synonym initial_values = "string \<Rightarrow> nat list \<Rightarrow> real list"

definition Linear :: "initial_values \<Rightarrow> string \<Rightarrow> nat \<Rightarrow> nat \<Rightarrow> linear" where
  "Linear init prefix n_in n_out =
     \<lparr>in_features = n_in, out_features = n_out,
      weight = \<lparr>shape = [n_out, n_in], elems = init (prefix @ ''weight'') [n_out, n_in]\<rparr>,
      bias = \<lparr>shape = [n_out], elems = init (prefix @ ''bias'') [n_out]\<rparr>\<rparr>"

text \<open>
  The attributes \<^verbatim>\<open>hidden_layers\<close> and \<^verbatim>\<open>output\<close> of a network; the second is the
  field \<open>output_layer\<close>, \<open>output\<close> being a keyword of the theory language.
\<close>

record network =
  hidden_layers :: "linear list"
  output_layer :: linear

definition hidden_prefix :: "nat \<Rightarrow> string" where
  "hidden_prefix k = ''hidden_layers.'' @ str_nat k @ ''.''"

text \<open>
  Modelled from the spec: the class \<^verbatim>\<open>fc_model.Network\<close>, whose module
  \<^verbatim>\<open>fc_model.py\<close> is not among the sources. The notebook prints a network made by
  \<^verbatim>\<open>fc_model.Network(784, 10, [512, 256, 128])\<close> as
  \<^verbatim>\<open>
  (hidden_layers): ModuleList(
    (0): Linear(in_features=784, out_features=512, bias=True)
    (1): Linear(in_features=512, out_features=256, bias=True)
    (2): Linear(in_features=256, out_features=128, bias=True))
  (output): Linear(in_features=128, out_features=10, bias=True)
  (dropout): Dropout(p=0.5, inplace=False)
  \<close>
  so hidden layer \<open>k\<close> maps the size before it (the input size for the first) to
  \<open>hidden_layers[k]\<close>, and the output layer maps the last hidden size to the output
  size. The first and the last item of an empty list do not exist. Dropout has no
  parameter.
\<close>

definition Network ::
  "initial_values \<Rightarrow> nat \<Rightarrow> nat \<Rightarrow> nat list \<Rightarrow> py_error + network" where
  "Network init input_size output_size hidden =
     (if hidden = [] then Inl IndexError
      else Inr \<lparr>hidden_layers =
                  map (\<lambda>(k, n_in, n_out). Linear init (hidden_prefix k) n_in n_out)
                    (enumerate 0 (zip (input_size # hidden) hidden)),
                output_layer = Linear init ''output.'' (last hidden) output_size\<rparr>)"

text \<open>
  \<^verbatim>\<open>model.state_dict()\<close>: the notebook prints its keys as
  \<^verbatim>\<open>hidden_layers.0.weight, hidden_layers.0.bias, ..., output.weight, output.bias\<close>.
\<close>

definition linear_entries :: "string \<Rightarrow> linear \<Rightarrow> state_dict" where
  "linear_entries prefix l = [(prefix @ ''weight'', weight l), (prefix @ ''bias'', bias l)]"

fun layer_entries :: "nat \<Rightarrow> linear list \<Rightarrow> state_dict" where
  "layer_entries k [] = []"
| "layer_entries k (l # ls) = linear_entries (hidden_prefix k) l @ layer_entries (Suc k) ls"

definition state_dict :: "network \<Rightarrow> state_dict" where
  "state_dict m = layer_entries 0 (hidden_layers m) @ linear_entries ''output.'' (output_layer m)"

section \<open>Saving and loading\<close>

text \<open>
  \<^verbatim>\<open>model.load_state_dict(state_dict)\<close> of the library, in its default strict mode.
  Every parameter of the model whose key is in the state dict with the shape of the
  parameter takes the saved elements; one whose saved shape differs is left as it is
  and reported. A key of the model that the state dict lacks is missing, a key of the
  state dict that the model lacks is unexpected. With nothing to report the call
  returns (\<^verbatim>\<open><All keys matched successfully>\<close>), otherwise it raises
  \<^verbatim>\<open>RuntimeError\<close> after the copying.
\<close>

definition load_tensor :: "state_dict \<Rightarrow> string \<Rightarrow> tensor \<Rightarrow> tensor \<times> size_mismatch list" where
  "load_tensor sd key param =
     (case map_of sd key of
        None \<Rightarrow> (param, [])
      | Some t \<Rightarrow>
          if shape t = shape param then (param\<lparr>elems := elems t\<rparr>, [])
          else (param, [SizeMismatch key (shape t) (shape param)]))"

definition load_linear :: "state_dict \<Rightarrow> string \<Rightarrow> linear \<Rightarrow> linear \<times> size_mismatch list" where
  "load_linear sd prefix l =
     (let (w, e1) = load_tensor sd (prefix @ ''weight'') (weight l);
          (b, e2) = load_tensor sd (prefix @ ''bias'') (bias l)
      in (l\<lparr>weight := w, bias := b\<rparr>, e1 @ e2))"

fun load_layers :: "state_dict \<Rightarrow> nat \<Rightarrow> linear list \<Rightarrow> linear list \<times> size_mismatch list" where
  "load_layers sd k [] = ([], [])"
| "load_layers sd k (l # ls) =
     (let (l', e) = load_linear sd (hidden_prefix k) l;
          (ls', es) = load_layers sd (Suc k) ls
      in (l' # ls', e @ es))"

definition load_state_dict :: "network \<Rightarrow> state_dict \<Rightarrow> network \<times> (py_error + unit)" where
  "load_state_dict m sd =
     (let (hs, e1) = load_layers sd 0 (hidden_layers m);
          (out, e2) = load_linear sd ''output.'' (output_layer m);
          errors = \<lparr>missing_keys = filter (\<lambda>k. k \<notin> fst ` set sd) (map fst (state_dict m)),
                    unexpected_keys = filter (\<lambda>k. k \<notin> fst ` set (state_dict m)) (map fst sd),
                    size_mismatches = e1 @ e2\<rparr>
      in (m\<lparr>hidden_layers := hs, output_layer := out\<rparr>,
          if missing_keys errors = [] \<and> unexpected_keys errors = [] \<and> size_mismatches errors = []
          then Inr () else Inl (RuntimeError errors)))"

text \<open>
  Files hold what \<^verbatim>\<open>torch.save\<close> wrote: in the notebook a state dict, or the
  checkpoint dictionary with the keys \<^verbatim>\<open>input_size\<close>, \<^verbatim>\<open>output_size\<close>,
  \<^verbatim>\<open>hidden_layers\<close> and \<^verbatim>\<open>state_dict\<close>. \<^verbatim>\<open>torch.load\<close> gives back the object
  that was saved; the format of the file is the library's.
\<close>

record checkpoint =
  ck_input_size :: nat
  ck_output_size :: nat
  ck_hidden_layers :: "nat list"
  ck_state_dict :: state_dict

datatype pickled = StateDictFile state_dict | CheckpointFile checkpoint

type_synonym files = "string \<rightharpoonup> pickled"

definition torch_save :: "pickled \<Rightarrow> string \<Rightarrow> files \<Rightarrow> files" where
  "torch_save obj path fs = fs(path \<mapsto> obj)"

definition torch_load :: "files \<Rightarrow> string \<Rightarrow> py_error + pickled" where
  "torch_load fs path =
     (case fs path of None \<Rightarrow> Inl (FileNotFoundError path) | Some obj \<Rightarrow> Inr obj)"

text \<open>
  The cell that saves a full checkpoint:
  \<^verbatim>\<open>
  checkpoint = {'input_size': 784,
                'output_size': 10,
                'hidden_layers': [each.out_features for each in model.hidden_layers],
                'state_dict': model.state_dict()}
  torch.save(checkpoint, 'checkpoint.pth')
  \<close>
  The two sizes are literals of the cell, those of the notebook's model; they are
  parameters here.
\<close>

definition make_checkpoint :: "nat \<Rightarrow> nat \<Rightarrow> network \<Rightarrow> checkpoint" where
  "make_checkpoint input_size output_size model =
     \<lparr>ck_input_size = input_size, ck_output_size = output_size,
      ck_hidden_layers = map out_features (hidden_layers model),
      ck_state_dict = state_dict model\<rparr>"

definition checkpoint_cell :: "network \<Rightarrow> files \<Rightarrow> files" where
  "checkpoint_cell model fs =
     torch_save (CheckpointFile (make_checkpoint 784 10 model)) ''checkpoint.pth'' fs"

text \<open>
  \<^verbatim>\<open>
  def load_checkpoint(filepath):
      checkpoint = torch.load(filepath)
      model = fc_model.Network(checkpoint['input_size'],
                               checkpoint['output_size'],
                               checkpoint['hidden_layers'])
      model.load_state_dict(checkpoint['state_dict'])
      return model
  \<close>
  A file that holds a bare state dict has no key \<^verbatim>\<open>input_size\<close>.
\<close>

definition load_checkpoint :: "initial_values \<Rightarrow> files \<Rightarrow> string \<Rightarrow> py_error + network" where
  "load_checkpoint init fs filepath =
     (case torch_load fs filepath of
        Inl e \<Rightarrow> Inl e
      | Inr (StateDictFile sd) \<Rightarrow> Inl (KeyError ''input_size'')
      | Inr (CheckpointFile checkpoint) \<Rightarrow>
          (case Network init (ck_input_size checkpoint) (ck_output_size checkpoint)
                  (ck_hidden_layers checkpoint) of
             Inl e \<Rightarrow> Inl e
           | Inr model \<Rightarrow>
               (case load_state_dict model (ck_state_dict checkpoint) of
                  (model', Inl e) \<Rightarrow> Inl e
                | (model', Inr u) \<Rightarrow> Inr model')))"

text \<open>
  Two models have the same architecture when they have as many hidden layers and their
  parameters have the same shapes, layer by layer.
\<close>

definition same_shapes :: "linear \<Rightarrow> linear \<Rightarrow> bool" where
  "same_shapes l l' \<longleftrightarrow>
     shape (weight l) = shape (weight l') \<and> shape (bias l) = shape (bias l')"

definition same_architecture :: "network \<Rightarrow> network \<Rightarrow> bool" where
  "same_architecture m m' \<longleftrightarrow>
     list_all2 same_shapes (hidden_layers m) (hidden_layers m') \<and>
     same_shapes (output_layer m) (output_layer m')"



definition net_3_2_2 :: "real \<Rightarrow> network" where
  "net_3_2_2 v =
     \<lparr>hidden_layers =
        [\<lparr>in_features = 3, out_features = 2,
          weight = \<lparr>shape = [2, 3], elems = [v, v, v, v, v, v]\<rparr>,
          bias = \<lparr>shape = [2], elems = [v, v]\<rparr>\<rparr>],
      output_layer =
        \<lparr>in_features = 2, out_features = 2,
         weight = \<lparr>shape = [2, 2], elems = [v, v, v, v]\<rparr>,
         bias = \<lparr>shape = [2], elems = [v, v]\<rparr>\<rparr>\<rparr>"



section \<open>The training loops\<close>

text \<open>
  The loops call the library for everything numerical, so the library is a parameter:
  \<^item> \<open>view\<close>: \<^verbatim>\<open>images.view(images.shape[0], -1)\<close>, the batch flattened;
  \<^item> \<open>net\<close>: the output of the layers for given parameters and flattened input;
  \<^item> \<open>loss_fn\<close>: the value of the criterion for an output and the labels;
  \<^item> \<open>autograd\<close>: the gradient, with respect to the parameters, of the loss of an input
    and its labels, as the backward pass computes it from the recorded graph;
  \<^item> \<open>update\<close>: what \<^verbatim>\<open>optimizer.step()\<close> makes of the optimizer's own state (none
    for plain SGD, the moments for Adam), the parameters and their gradients.
  Parameters and gradients are vectors of reals. The library calls are taken to return,
  as they do on the batches the train loader yields.
\<close>

record ('x, 'y, 's) torch =
  view :: "'x \<Rightarrow> 'x"
  net :: "real list \<Rightarrow> 'x \<Rightarrow> real list"
  loss_fn :: "real list \<Rightarrow> 'y \<Rightarrow> real"
  autograd :: "real list \<Rightarrow> 'x \<Rightarrow> 'y \<Rightarrow> real list"
  update :: "'s \<Rightarrow> real list \<Rightarrow> real list \<Rightarrow> 's \<times> real list"

text \<open>
  What a notebook session holds while it trains: the parameters of the model, their
  \<^verbatim>\<open>.grad\<close> (\<open>None\<close> before the first backward pass and after
  \<^verbatim>\<open>optimizer.zero_grad()\<close>; older versions of the library fill it with zeros
  instead, and the backward pass then adds to zero), the state of the optimizer, and a
  trace of the calls made and the lines printed, in order. The trace keeps the input
  and the output of a forward pass, and the output, the labels and the value of an
  evaluation of the criterion.
\<close>

datatype ('x, 'y) event =
    ZeroGrad
  | Forward 'x "real list"
  | Criterion "real list" 'y real
  | Backward
  | Step
  | Print real

record ('x, 'y, 's) session =
  params :: "real list"
  grads :: "real list option"
  opt :: 's
  trace :: "('x, 'y) event list"

text \<open>
  A tensor that comes out of the model remembers the parameters and the input it was
  computed from, and the loss remembers them with the labels: this is the graph that
  \<^verbatim>\<open>loss.backward()\<close> walks.
\<close>

record 'x output_tensor =
  out_value :: "real list"
  out_graph :: "real list \<times> 'x"

record ('x, 'y) loss_tensor =
  item :: real
  loss_graph :: "real list \<times> 'x \<times> 'y"

definition zero_grad :: "('x, 'y, 's) session \<Rightarrow> ('x, 'y, 's) session" where
  "zero_grad st = st\<lparr>grads := None, trace := trace st @ [ZeroGrad]\<rparr>"

definition model_call ::
  "('x, 'y, 's) torch \<Rightarrow> ('x, 'y, 's) session \<Rightarrow> 'x \<Rightarrow>
     ('x, 'y, 's) session \<times> 'x output_tensor" where
  "model_call lib st x =
     (let value = net lib (params st) x
      in (st\<lparr>trace := trace st @ [Forward x value]\<rparr>,
          \<lparr>out_value = value, out_graph = (params st, x)\<rparr>))"

definition criterion ::
  "('x, 'y, 's) torch \<Rightarrow> ('x, 'y, 's) session \<Rightarrow> 'x output_tensor \<Rightarrow> 'y \<Rightarrow>
     ('x, 'y, 's) session \<times> ('x, 'y) loss_tensor" where
  "criterion lib st out labels =
     (let value = loss_fn lib (out_value out) labels
      in (st\<lparr>trace := trace st @ [Criterion (out_value out) labels value]\<rparr>,
          \<lparr>item = value, loss_graph = (fst (out_graph out), snd (out_graph out), labels)\<rparr>))"

text \<open>\<^verbatim>\<open>loss.backward()\<close> adds the gradient to \<^verbatim>\<open>.grad\<close>, or sets it where there is none.\<close>

definition backward ::
  "('x, 'y, 's) torch \<Rightarrow> ('x, 'y, 's) session \<Rightarrow> ('x, 'y) loss_tensor \<Rightarrow>
     ('x, 'y, 's) session" where
  "backward lib st loss =
     (let (p, x, labels) = loss_graph loss;
          g = autograd lib p x labels
      in st\<lparr>grads := (case grads st of None \<Rightarrow> Some g | Some a \<Rightarrow> Some (map2 (+) a g)),
             trace := trace st @ [Backward]\<rparr>)"

text \<open>\<^verbatim>\<open>optimizer.step()\<close> skips parameters without a gradient.\<close>

definition optimizer_step ::
  "('x, 'y, 's) torch \<Rightarrow> ('x, 'y, 's) session \<Rightarrow> ('x, 'y, 's) session" where
  "optimizer_step lib st =
     (case grads st of
        None \<Rightarrow> st\<lparr>trace := trace st @ [Step]\<rparr>
      | Some g \<Rightarrow>
          let (s, p) = update lib (opt st) (params st) g
          in st\<lparr>params := p, opt := s, trace := trace st @ [Step]\<rparr>)"

definition print_loss :: "('x, 'y, 's) session \<Rightarrow> real \<Rightarrow> ('x, 'y, 's) session" where
  "print_loss st x = st\<lparr>trace := trace st @ [Print x]\<rparr>"

text \<open>
  The training pass of \<^verbatim>\<open>Part 3 - Training Neural Networks (Solution)\<close> and of its
  exercise notebook, on a model made of the layers alone:
  \<^verbatim>\<open>
  images = images.view(images.shape[0], -1)
  optimizer.zero_grad()
  output = model(images)
  loss = criterion(output, labels)
  loss.backward()
  optimizer.step()
  \<close>
\<close>

definition training_pass ::
  "('x, 'y, 's) torch \<Rightarrow> ('x, 'y, 's) session \<Rightarrow> 'x \<times> 'y \<Rightarrow>
     ('x, 'y, 's) session \<times> ('x, 'y) loss_tensor" where
  "training_pass lib st batch =
     (let (images, labels) = batch;
          images = view lib images;
          st = zero_grad st;
          (st, output) = model_call lib st images;
          (st, loss) = criterion lib st output labels;
          st = backward lib st loss;
          st = optimizer_step lib st
      in (st, loss))"

text \<open>
  The training pass of the Fashion-MNIST solution. Its model is the class
  \<^verbatim>\<open>Classifier\<close>, whose \<^verbatim>\<open>forward\<close> flattens its input itself
  (\<^verbatim>\<open>x = x.view(x.shape[0], -1)\<close>) before the layers.
  \<^verbatim>\<open>
  log_ps = model(images)
  loss = criterion(log_ps, labels)
  optimizer.zero_grad()
  loss.backward()
  optimizer.step()
  \<close>
\<close>

definition classifier_call ::
  "('x, 'y, 's) torch \<Rightarrow> ('x, 'y, 's) session \<Rightarrow> 'x \<Rightarrow>
     ('x, 'y, 's) session \<times> 'x output_tensor" where
  "classifier_call lib st x = model_call lib st (view lib x)"

definition training_pass_fashion ::
  "('x, 'y, 's) torch \<Rightarrow> ('x, 'y, 's) session \<Rightarrow> 'x \<times> 'y \<Rightarrow>
     ('x, 'y, 's) session \<times> ('x, 'y) loss_tensor" where
  "training_pass_fashion lib st batch =
     (let (images, labels) = batch;
          (st, log_ps) = classifier_call lib st images;
          (st, loss) = criterion lib st log_ps labels;
          st = zero_grad st;
          st = backward lib st loss;
          st = optimizer_step lib st
      in (st, loss))"

text \<open>
  The loops of the three notebooks are the same around their training pass \<open>pass\<close>:
  \<^verbatim>\<open>
  for e in range(epochs):
      running_loss = 0
      for images, labels in trainloader:
          ...
          running_loss += loss.item()
      else:
          print(f"Training loss: {running_loss/len(trainloader)}")
  \<close>
  The loader shuffles, so \<open>trainloader e\<close> is the list of batches of its pass number
  \<open>e\<close>, and \<^verbatim>\<open>len(trainloader)\<close> is the number of batches of a pass. The loop has no
  \<^verbatim>\<open>break\<close>, so the \<^verbatim>\<open>else\<close> branch runs after every pass. Python raises
  \<^verbatim>\<open>ZeroDivisionError\<close> for a division by zero.
\<close>

fun batch_loop ::
  "(('x, 'y, 's) session \<Rightarrow> 'x \<times> 'y \<Rightarrow> ('x, 'y, 's) session \<times> ('x, 'y) loss_tensor) \<Rightarrow>
     ('x, 'y, 's) session \<Rightarrow> real \<Rightarrow> ('x \<times> 'y) list \<Rightarrow> ('x, 'y, 's) session \<times> real" where
  "batch_loop pass st running_loss [] = (st, running_loss)"
| "batch_loop pass st running_loss (batch # rest) =
     (let (st, loss) = pass st batch
      in batch_loop pass st (running_loss + item loss) rest)"

definition epoch ::
  "(('x, 'y, 's) session \<Rightarrow> 'x \<times> 'y \<Rightarrow> ('x, 'y, 's) session \<times> ('x, 'y) loss_tensor) \<Rightarrow>
     ('x, 'y, 's) session \<Rightarrow> ('x \<times> 'y) list \<Rightarrow> py_error + ('x, 'y, 's) session" where
  "epoch pass st batches =
     (let running_loss = 0;
          (st, running_loss) = batch_loop pass st running_loss batches
      in if length batches = 0 then Inl ZeroDivisionError
         else Inr (print_loss st (running_loss / real (length batches))))"

fun epoch_loop ::
  "(('x, 'y, 's) session \<Rightarrow> 'x \<times> 'y \<Rightarrow> ('x, 'y, 's) session \<times> ('x, 'y) loss_tensor) \<Rightarrow>
     (nat \<Rightarrow> ('x \<times> 'y) list) \<Rightarrow> ('x, 'y, 's) session \<Rightarrow> nat list \<Rightarrow>
     py_error + ('x, 'y, 's) session" where
  "epoch_loop pass trainloader st [] = Inr st"
| "epoch_loop pass trainloader st (e # es) =
     (case epoch pass st (trainloader e) of
        Inl err \<Rightarrow> Inl err
      | Inr st' \<Rightarrow> epoch_loop pass trainloader st' es)"

definition train ::
  "('x, 'y, 's) torch \<Rightarrow> nat \<Rightarrow> (nat \<Rightarrow> ('x \<times> 'y) list) \<Rightarrow> ('x, 'y, 's) session \<Rightarrow>
     py_error + ('x, 'y, 's) session" where
  "train lib epochs trainloader st =
     epoch_loop (training_pass lib) trainloader st [0 ..< epochs]"

definition train_fashion ::
  "('x, 'y, 's) torch \<Rightarrow> nat \<Rightarrow> (nat \<Rightarrow> ('x \<times> 'y) list) \<Rightarrow> ('x, 'y, 's) session \<Rightarrow>
     py_error + ('x, 'y, 's) session" where
  "train_fashion lib epochs trainloader st =
     epoch_loop (training_pass_fashion lib) trainloader st [0 ..< epochs]"

subsection \<open>What the loop is expected to do\<close>

text \<open>
  The description of the loop in words, written out without a session. The model is
  the pair of the parameters and the optimizer state. For a batch and the parameters
  \<open>p\<close> of the moment:
  \<^item> the calls are one gradient zeroing, one forward pass of the flattened images with
    the output of the layers at \<open>p\<close>, one evaluation of the criterion on that output
    and the labels of the batch, one backward pass and one optimizer step, in the
    order of the notebook;
  \<^item> the batch loss is the value of the criterion on that output and the labels;
  \<^item> the model after the batch is the update of the optimizer for the gradient of
    the batch at \<open>p\<close>.
\<close>

definition pass_events ::
  "('x, 'y, 's) torch \<Rightarrow> real list \<Rightarrow> 'x \<times> 'y \<Rightarrow> ('x, 'y) event list" where
  "pass_events lib p batch =
     (let (images, labels) = batch;
          x = view lib images;
          out = net lib p x
      in [ZeroGrad, Forward x out, Criterion out labels (loss_fn lib out labels), Backward, Step])"

definition pass_events_fashion ::
  "('x, 'y, 's) torch \<Rightarrow> real list \<Rightarrow> 'x \<times> 'y \<Rightarrow> ('x, 'y) event list" where
  "pass_events_fashion lib p batch =
     (let (images, labels) = batch;
          x = view lib images;
          out = net lib p x
      in [Forward x out, Criterion out labels (loss_fn lib out labels), ZeroGrad, Backward, Step])"

definition batch_loss :: "('x, 'y, 's) torch \<Rightarrow> real list \<Rightarrow> 'x \<times> 'y \<Rightarrow> real" where
  "batch_loss lib p batch =
     (let (images, labels) = batch in loss_fn lib (net lib p (view lib images)) labels)"

definition updated ::
  "('x, 'y, 's) torch \<Rightarrow> real list \<times> 's \<Rightarrow> 'x \<times> 'y \<Rightarrow> real list \<times> 's" where
  "updated lib m batch =
     (let (p, s) = m;
          (images, labels) = batch;
          (s', p') = update lib s p (autograd lib p (view lib images) labels)
      in (p', s'))"

text \<open>
  An epoch from the model \<open>m\<close>: the calls of its batches one after the other, each at
  the model the batches before it have left, then one printed line, the sum of the
  batch losses of the epoch divided by the number of batches.
\<close>

fun batch_events ::
  "(real list \<Rightarrow> 'x \<times> 'y \<Rightarrow> ('x, 'y) event list) \<Rightarrow> ('x, 'y, 's) torch \<Rightarrow>
     real list \<times> 's \<Rightarrow> ('x \<times> 'y) list \<Rightarrow> ('x, 'y) event list" where
  "batch_events events lib m [] = []"
| "batch_events events lib m (b # bs) =
     events (fst m) b @ batch_events events lib (updated lib m b) bs"

fun batch_losses ::
  "('x, 'y, 's) torch \<Rightarrow> real list \<times> 's \<Rightarrow> ('x \<times> 'y) list \<Rightarrow> real list" where
  "batch_losses lib m [] = []"
| "batch_losses lib m (b # bs) = batch_loss lib (fst m) b # batch_losses lib (updated lib m b) bs"

definition epoch_events ::
  "(real list \<Rightarrow> 'x \<times> 'y \<Rightarrow> ('x, 'y) event list) \<Rightarrow> ('x, 'y, 's) torch \<Rightarrow>
     real list \<times> 's \<Rightarrow> ('x \<times> 'y) list \<Rightarrow> ('x, 'y) event list" where
  "epoch_events events lib m bs =
     batch_events events lib m bs @
     [Print (sum_list (batch_losses lib m bs) / real (length bs))]"

text \<open>The epochs \<open>es\<close> one after the other, and the model they leave.\<close>

fun run_events ::
  "(real list \<Rightarrow> 'x \<times> 'y \<Rightarrow> ('x, 'y) event list) \<Rightarrow> ('x, 'y, 's) torch \<Rightarrow>
     (nat \<Rightarrow> ('x \<times> 'y) list) \<Rightarrow> real list \<times> 's \<Rightarrow> nat list \<Rightarrow> ('x, 'y) event list" where
  "run_events events lib trainloader m [] = []"
| "run_events events lib trainloader m (e # es) =
     epoch_events events lib m (trainloader e) @
     run_events events lib trainloader (foldl (updated lib) m (trainloader e)) es"

fun run_model ::
  "('x, 'y, 's) torch \<Rightarrow> (nat \<Rightarrow> ('x \<times> 'y) list) \<Rightarrow> real list \<times> 's \<Rightarrow> nat list \<Rightarrow>
     real list \<times> 's" where
  "run_model lib trainloader m [] = m"
| "run_model lib trainloader m (e # es) =
     run_model lib trainloader (foldl (updated lib) m (trainloader e)) es"

text \<open>
  A training pass \<open>pass\<close> follows the description with the calls \<open>events\<close>: it adds
  these calls to the trace, returns the batch loss and leaves the updated model.
\<close>

definition follows ::
  "(('x, 'y, 's) session \<Rightarrow> 'x \<times> 'y \<Rightarrow> ('x, 'y, 's) session \<times> ('x, 'y) loss_tensor) \<Rightarrow>
     (real list \<Rightarrow> 'x \<times> 'y \<Rightarrow> ('x, 'y) event list) \<Rightarrow> ('x, 'y, 's) torch \<Rightarrow> bool" where
  "follows pass events lib \<longleftrightarrow>
     (\<forall>st b. trace (fst (pass st b)) = trace st @ events (params st) b \<and>
        (params (fst (pass st b)), opt (fst (pass st b))) = updated lib (params st, opt st) b \<and>
        item (snd (pass st b)) = batch_loss lib (params st) b)"

text \<open>
  A library of one weight for the examples below: the model multiplies, the loss is the
  squared error, the optimizer is gradient descent with learning rate \<open>1/10\<close>.
\<close>

definition toy :: "(real, real, unit) torch" where
  "toy = \<lparr>view = (\<lambda>x. x),
     net = (\<lambda>p x. map (\<lambda>w. w * x) p),
     loss_fn = (\<lambda>out y. sum_list (map (\<lambda>v. (v - y) * (v - y)) out)),
     autograd = (\<lambda>p x y. map (\<lambda>w. 2 * (w * x - y) * x) p),
     update = (\<lambda>s p g. (s, map2 (\<lambda>w d. w - d / 10) p g))\<rparr>"

definition toy_session :: "real list option \<Rightarrow> (real, real, unit) session" where
  "toy_session g = \<lparr>params = [1], grads = g, opt = (), trace = []\<rparr>"

definition toy_loader :: "nat \<Rightarrow> (real \<times> real) list" where
  "toy_loader e = [(1, 2), (2, 4)]"

definition empty_loader :: "nat \<Rightarrow> (real \<times> real) list" where
  "empty_loader e = []"

section \<open>The error term\<close>

text \<open>
  C1: for every feature vector \<open>x\<close>, label \<open>y\<close> and prediction \<open>output\<close>,
  \<open>error_term_formula x y output\<close> is \<open>(y - output) * x\<close>: a vector as long as \<open>x\<close>
  whose component \<open>i\<close> is \<open>(y - output) * x ! i\<close>. There is no failing branch.
\<close>

theorem error_term_formula_spec:
  "length (error_term_formula x y output) = length x \<and>
   (\<forall>i < length x. error_term_formula x y output ! i = (y - output) * (x ! i))"
  by (simp add: error_term_formula_def scalar_times_def)

theorem error_term_formula_spec_witness:
  "length (error_term_formula [2, 3, 5 :: int] 1 4) = length [2, 3, 5 :: int] \<and>
   error_term_formula [2, 3, 5 :: int] 1 4 ! 0 = - 6 \<and>
   error_term_formula [2, 3, 5 :: int] 1 4 ! 1 = - 9 \<and>
   error_term_formula [2, 3, 5 :: int] 1 4 ! 2 = - 15"
  using error_term_formula_spec [of "[2, 3, 5 :: int]" 1 4]
  by (simp add: error_term_formula_def scalar_times_def)

section \<open>Decimal numerals are unambiguous\<close>

lemma digit_char_inj: "d < 10 \<Longrightarrow> e < 10 \<Longrightarrow> digit_char d = digit_char e \<Longrightarrow> d = e"
  by (simp add: digit_char_def)

lemma digit_char_not_minus: "d < 10 \<Longrightarrow> digit_char d \<noteq> CHR ''-''"
  by (simp add: digit_char_def char_of_eq_iff take_bit_eq_mod)

lemma str_nat_not_Nil: "str_nat n \<noteq> []"
  by (subst str_nat.simps) simp

lemma str_nat_small: "n < 10 \<Longrightarrow> str_nat n = [digit_char n]"
  by (subst str_nat.simps) simp

lemma str_nat_large: "\<not> n < 10 \<Longrightarrow> str_nat n = str_nat (n div 10) @ [digit_char (n mod 10)]"
  by (subst str_nat.simps) simp

lemma str_nat_inj: "str_nat m = str_nat n \<Longrightarrow> m = n"
proof (induction m arbitrary: n rule: str_nat.induct)
  case (1 m)
  show ?case
  proof (cases "m < 10")
    case m: True
    show ?thesis
    proof (cases "n < 10")
      case True
      with m "1.prems" show ?thesis by (simp add: str_nat_small digit_char_inj)
    next
      case False
      with m "1.prems" str_nat_not_Nil [of "n div 10"] show ?thesis
        by (simp add: str_nat_small str_nat_large)
    qed
  next
    case m: False
    show ?thesis
    proof (cases "n < 10")
      case True
      with m "1.prems" str_nat_not_Nil [of "m div 10"] show ?thesis
        by (simp add: str_nat_small str_nat_large)
    next
      case n: False
      with m "1.prems" have a: "str_nat (m div 10) = str_nat (n div 10)"
        and b: "digit_char (m mod 10) = digit_char (n mod 10)"
        by (simp_all add: str_nat_large)
      from "1.IH" [OF m a] have "m div 10 = n div 10" .
      moreover from b have "m mod 10 = n mod 10" by (simp add: digit_char_inj)
      ultimately show ?thesis by (metis div_mult_mod_eq)
    qed
  qed
qed

lemma hd_str_nat_not_minus: "hd (str_nat n) \<noteq> CHR ''-''"
proof (induction n rule: str_nat.induct)
  case (1 n)
  show ?case
  proof (cases "n < 10")
    case True
    then show ?thesis by (simp add: str_nat_small digit_char_not_minus)
  next
    case False
    with "1.IH" show ?thesis by (simp add: str_nat_large str_nat_not_Nil)
  qed
qed

lemma str_int_inj: "str_int i = str_int j \<Longrightarrow> i = j"
proof -
  assume eq: "str_int i = str_int j"
  have neg: "CHR ''-'' # s \<noteq> str_nat n" for s n
    using hd_str_nat_not_minus [of n] by (cases "str_nat n") auto
  show ?thesis
  proof (cases "i < 0")
    case i: True
    show ?thesis
    proof (cases "j < 0")
      case True
      with i eq have "nat (- i) = nat (- j)" by (simp add: str_int_def str_nat_inj)
      with i True show ?thesis by simp
    next
      case False
      with i eq neg show ?thesis by (simp add: str_int_def)
    qed
  next
    case i: False
    show ?thesis
    proof (cases "j < 0")
      case True
      with i eq neg [of "str_nat (nat (- j))" "nat i"] show ?thesis by (simp add: str_int_def)
    next
      case False
      with i eq have "nat i = nat j" by (simp add: str_int_def str_nat_inj)
      with i False show ?thesis by simp
    qed
  qed
qed

section \<open>One-hot encoding of the rank\<close>

lemma filter_dummies:
  "filter (\<lambda>c. fst c \<noteq> ''rank'') (dummies str ''rank'' vs) = dummies str ''rank'' vs"
  by (rule filter_True) (auto simp: dummies_def)

lemma one_hot_int:
  assumes "map_of data ''rank'' = Some (IntCol ranks)"
  shows "one_hot_data float_str data =
    Inr (filter (\<lambda>c. fst c \<noteq> ''rank'') data @ dummies str_int ''rank'' ranks)"
proof -
  from assms have "''rank'' \<in> fst ` set data"
    by (metis domI dom_map_of_conv_image_fst)
  with assms show ?thesis
    by (simp add: one_hot_data_def getitem_def get_dummies_series_def concat_columns_def
        drop_column_def filter_dummies image_Un)
qed

lemma one_hot_alt_int:
  assumes "map_of data ''rank'' = Some (IntCol ranks)"
  shows "one_hot_data_alt float_str data =
    Inr (filter (\<lambda>c. fst c \<noteq> ''rank'') data @ dummies str_int ''rank'' ranks)"
proof -
  from assms have "''rank'' \<in> fst ` set data"
    by (metis domI dom_map_of_conv_image_fst)
  with assms show ?thesis
    by (simp add: one_hot_data_alt_def getitem_def get_dummies_series_def concat_columns_def
        drop_column_def)
qed

lemma dummies_distinct_names:
  "inj str \<Longrightarrow> distinct (map fst (dummies str prefix vs))"
  by (simp add: dummies_def distinct_map comp_def inj_on_def inj_def)

text \<open>
  C6: for a table with distinct column names and an integer column \<open>rank\<close>, both
  solution cells return the same table: the columns of \<open>data\<close> other than \<open>rank\<close>,
  unchanged and in their order, followed by one indicator column for each distinct rank
  value \<open>v\<close>, in ascending order and named \<open>rank_v\<close>. The result has no column
  \<open>rank\<close>, the indicator columns have different names, and in row \<open>i\<close> the indicator
  column of the value \<open>v\<close> holds 1 if the rank of row \<open>i\<close> is \<open>v\<close> and 0 otherwise.
\<close>

theorem one_hot_encoding_spec:
  assumes "distinct (map fst data)" and "map_of data ''rank'' = Some (IntCol ranks)"
  shows "\<exists>dums.
    one_hot_data float_str data = Inr (filter (\<lambda>c. fst c \<noteq> ''rank'') data @ dums) \<and>
    one_hot_data_alt float_str data = Inr (filter (\<lambda>c. fst c \<noteq> ''rank'') data @ dums) \<and>
    ''rank'' \<notin> fst ` set (filter (\<lambda>c. fst c \<noteq> ''rank'') data @ dums) \<and>
    map fst dums = map (\<lambda>v. ''rank_'' @ str_int v) (sorted_list_of_set (set ranks)) \<and>
    distinct (map fst dums) \<and>
    (\<forall>j < length dums. \<forall>i < length ranks. \<exists>ind.
       snd (dums ! j) = IntCol ind \<and> length ind = length ranks \<and>
       ind ! i = (if ranks ! i = sorted_list_of_set (set ranks) ! j then 1 else 0))"
proof -
  let ?dums = "dummies str_int ''rank'' ranks"
  have lv: "sorted_list_of_set (set ranks) = sort (remdups ranks)"
    by (simp add: sorted_list_of_set_sort_remdups)
  have 1: "one_hot_data float_str data = Inr (filter (\<lambda>c. fst c \<noteq> ''rank'') data @ ?dums)"
    using assms(2) by (rule one_hot_int)
  have 2: "one_hot_data_alt float_str data = Inr (filter (\<lambda>c. fst c \<noteq> ''rank'') data @ ?dums)"
    using assms(2) by (rule one_hot_alt_int)
  have 3: "''rank'' \<notin> fst ` set (filter (\<lambda>c. fst c \<noteq> ''rank'') data @ ?dums)"
    by (auto simp: dummies_def)
  have 4: "map fst ?dums = map (\<lambda>v. ''rank_'' @ str_int v) (sorted_list_of_set (set ranks))"
    by (simp add: dummies_def lv)
  have 5: "distinct (map fst ?dums)"
    by (rule dummies_distinct_names) (auto simp: inj_def dest: str_int_inj)
  have 6: "\<exists>ind. snd (?dums ! j) = IntCol ind \<and> length ind = length ranks \<and>
       ind ! i = (if ranks ! i = sorted_list_of_set (set ranks) ! j then 1 else 0)"
    if "j < length ?dums" "i < length ranks" for i j
    using that by (simp add: dummies_def indicator_def lv)
  from 1 2 3 4 5 6 show ?thesis by blast
qed

theorem one_hot_encoding_spec_witness:
  "distinct (map fst admissions) \<and>
   map_of admissions ''rank'' = Some (IntCol [3, 3, 1]) \<and>
   (\<exists>dums.
      one_hot_data (\<lambda>r. []) admissions =
        Inr ([(''admit'', IntCol [0, 1, 1]), (''gre'', IntCol [380, 660, 800]),
              (''gpa'', FloatCol [3.61, 3.67, 4.0])] @ dums) \<and>
      map fst dums = [''rank_1'', ''rank_3''] \<and>
      (\<exists>ind. snd (dums ! 0) = IntCol ind \<and> ind ! 2 = 1 \<and> ind ! 0 = 0) \<and>
      (\<exists>ind. snd (dums ! 1) = IntCol ind \<and> ind ! 2 = 0 \<and> ind ! 0 = 1))"
proof -
  have d: "distinct (map fst admissions)" by (simp add: admissions_def)
  have r: "map_of admissions ''rank'' = Some (IntCol [3, 3, 1])" by (simp add: admissions_def)
  have s: "sorted_list_of_set (set [3, 3, 1 :: int]) = [1, 3]"
    by (simp add: sorted_list_of_set_sort_remdups)
  have n: "str_int 1 = ''1''" "str_int 3 = ''3''" by code_simp+
  have f: "filter (\<lambda>c. fst c \<noteq> ''rank'') admissions =
    [(''admit'', IntCol [0, 1, 1]), (''gre'', IntCol [380, 660, 800]),
     (''gpa'', FloatCol [3.61, 3.67, 4.0])]"
    by (simp add: admissions_def)
  from one_hot_encoding_spec [OF d r, of "\<lambda>r. []"] obtain dums where
    res: "one_hot_data (\<lambda>r. []) admissions =
      Inr (filter (\<lambda>c. fst c \<noteq> ''rank'') admissions @ dums)"
    and names: "map fst dums =
      map (\<lambda>v. ''rank_'' @ str_int v) (sorted_list_of_set (set [3, 3, 1]))"
    and ind: "\<forall>j < length dums. \<forall>i < length [3, 3, 1 :: int]. \<exists>ind.
       snd (dums ! j) = IntCol ind \<and> length ind = length [3, 3, 1 :: int] \<and>
       ind ! i = (if [3, 3, 1 :: int] ! i = sorted_list_of_set (set [3, 3, 1]) ! j then 1 else 0)"
    by (elim exE conjE)
  from names have names': "map fst dums = [''rank_1'', ''rank_3'']"
    by (simp add: s n)
  from arg_cong [OF names', of length] have len: "length dums = 2"
    by simp
  have c: "\<exists>ind. snd (dums ! j) = IntCol ind \<and>
      ind ! 2 = (if (1::int) = [1, 3] ! j then 1 else 0) \<and>
      ind ! 0 = (if (3::int) = [1, 3] ! j then 1 else 0)" if "j < 2" for j
  proof -
    from ind [rule_format, of j 2] that len obtain ind2 where a: "snd (dums ! j) = IntCol ind2"
      and "ind2 ! 2 = (if [3, 3, 1 :: int] ! 2 = sorted_list_of_set (set [3, 3, 1]) ! j then 1 else 0)"
      by auto
    then have a2: "ind2 ! 2 = (if (1::int) = [1, 3] ! j then 1 else 0)"
      by (simp add: s)
    from ind [rule_format, of j 0] that len obtain ind0 where b: "snd (dums ! j) = IntCol ind0"
      and "ind0 ! 0 = (if [3, 3, 1 :: int] ! 0 = sorted_list_of_set (set [3, 3, 1]) ! j then 1 else 0)"
      by auto
    then have b0: "ind0 ! 0 = (if (3::int) = [1, 3] ! j then 1 else 0)"
      by (simp add: s)
    from a b have "ind0 = ind2" by simp
    with a a2 b0 show ?thesis by auto
  qed
  from c [of 0] have c0: "\<exists>ind. snd (dums ! 0) = IntCol ind \<and> ind ! 2 = 1 \<and> ind ! 0 = 0"
    by simp
  from c [of 1] have c1: "\<exists>ind. snd (dums ! 1) = IntCol ind \<and> ind ! 2 = 0 \<and> ind ! 0 = 1"
    by simp
  from res [unfolded f] names' c0 c1 d r show ?thesis
    by (intro conjI exI [of _ dums])
qed

section \<open>Scaling the data\<close>

lemma map_of_read_frame:
  "map_of (read_frame st f) name = map_option (\<lambda>a. buffers st ! a) (map_of (frames st ! f) name)"
  unfolding read_frame_def by (induction "frames st ! f") (auto simp: map_of_map)

lemma scaling_cell_result:
  assumes "valid_frame st f"
    and "map_of (frames st ! f) ''gre'' = Some g"
    and "map_of (frames st ! f) ''gpa'' = Some p"
  shows "scaling_cell st f =
    Inr (\<lparr>frames = frames st @
            [AList.update ''gpa'' (Suc (length (buffers st)))
               (AList.update ''gre'' (length (buffers st)) (frames st ! f))],
          buffers = buffers st @
            [col_truediv (buffers st ! g) 800, col_truediv (buffers st ! p) 4]\<rparr>,
         length (frames st))"
proof -
  from assms(3) have "(''gpa'', p) \<in> set (frames st ! f)" by (rule map_of_SomeD)
  then have "p \<in> snd ` set (frames st ! f)" by force
  with assms(1) have p: "p < length (buffers st)" by (auto simp: valid_frame_def)
  from assms(2) have "(''gre'', g) \<in> set (frames st ! f)" by (rule map_of_SomeD)
  then have "g \<in> snd ` set (frames st ! f)" by force
  with assms(1) have g: "g < length (buffers st)" by (auto simp: valid_frame_def)
  show ?thesis
    using assms(2,3) p g
    by (simp add: scaling_cell_def frame_slice_all_def new_frame_def frame_getitem_def
        series_truediv_def new_buffer_def frame_setitem_def update_conv nth_append)
qed

lemma read_frame_cong:
  assumes "frames st' ! f = frames st ! f"
    and "\<forall>a \<in> snd ` set (frames st ! f). buffers st' ! a = buffers st ! a"
  shows "read_frame st' f = read_frame st f"
  using assms by (auto simp: read_frame_def)

lemma update_present:
  assumes "distinct (map fst cols)" and "k \<in> fst ` set cols"
  shows "AList.update k v cols = map (\<lambda>(name, a). if name = k then (name, v) else (name, a)) cols"
  using assms by (induction cols) (auto simp: rev_image_eqI intro!: map_idI [symmetric])

lemma scaling_cell_frames:
  assumes "valid_frame st f"
    and "map_of (read_frame st f) ''gre'' = Some gre"
    and "map_of (read_frame st f) ''gpa'' = Some gpa"
  shows "\<exists>st'. scaling_cell st f = Inr (st', length (frames st)) \<and>
    frames st' ! f = frames st ! f \<and>
    (\<forall>a < length (buffers st). buffers st' ! a = buffers st ! a) \<and>
    read_frame st' f = read_frame st f \<and>
    read_frame st' (length (frames st)) = scaled (read_frame st f)"
proof -
  from assms(2) obtain g where g: "map_of (frames st ! f) ''gre'' = Some g"
    by (auto simp: map_of_read_frame)
  from assms(3) obtain p where p: "map_of (frames st ! f) ''gpa'' = Some p"
    by (auto simp: map_of_read_frame)
  let ?n = "length (buffers st)"
  let ?cols = "AList.update ''gpa'' (Suc ?n) (AList.update ''gre'' ?n (frames st ! f))"
  let ?st = "\<lparr>frames = frames st @ [?cols],
     buffers = buffers st @ [col_truediv (buffers st ! g) 800, col_truediv (buffers st ! p) 4]\<rparr>"
  from assms(1) have f: "f < length (frames st)"
    and dist: "distinct (map fst (frames st ! f))"
    and inb: "\<forall>a \<in> snd ` set (frames st ! f). a < ?n"
    by (simp_all add: valid_frame_def)
  have run: "scaling_cell st f = Inr (?st, length (frames st))"
    using assms(1) g p by (rule scaling_cell_result)
  have same: "frames ?st ! f = frames st ! f"
    using f by (simp add: nth_append)
  have bufs: "\<forall>a < ?n. buffers ?st ! a = buffers st ! a"
    by (simp add: nth_append)
  have old: "read_frame ?st f = read_frame st f"
    using same bufs inb by (intro read_frame_cong) auto
  have gk: "''gre'' \<in> fst ` set (frames st ! f)" and pk: "''gpa'' \<in> fst ` set (frames st ! f)"
    using g p by (metis domI dom_map_of_conv_image_fst)+
  have g_only: "a = g" if "(''gre'', a) \<in> set (frames st ! f)" for a
    using that g dist by simp
  have p_only: "a = p" if "(''gpa'', a) \<in> set (frames st ! f)" for a
    using that p dist by simp
  have cols: "?cols = map (\<lambda>(name, a). if name = ''gpa'' then (name, Suc ?n)
      else if name = ''gre'' then (name, ?n) else (name, a)) (frames st ! f)"
  proof -
    let ?c1 = "AList.update ''gre'' ?n (frames st ! f)"
    have c1: "?c1 = map (\<lambda>(name, a). if name = ''gre'' then (name, ?n) else (name, a))
        (frames st ! f)"
      using dist gk by (rule update_present)
    have d1: "distinct (map fst ?c1)"
      using dist by (simp add: distinct_update del: AList.update.simps)
    have k1: "''gpa'' \<in> fst ` set ?c1"
      using pk by (simp add: dom_update del: AList.update.simps)
    have "?cols = map (\<lambda>(name, a). if name = ''gpa'' then (name, Suc ?n) else (name, a)) ?c1"
      using d1 k1 by (rule update_present)
    also have "\<dots> = map (\<lambda>(name, a). if name = ''gpa'' then (name, Suc ?n)
      else if name = ''gre'' then (name, ?n) else (name, a)) (frames st ! f)"
      by (subst c1) (auto simp: case_prod_unfold)
    finally show ?thesis .
  qed
  have inb': "a < ?n" if "(name, a) \<in> set (frames st ! f)" for name a
    using that inb by force
  have new: "read_frame ?st (length (frames st)) = scaled (read_frame st f)"
    unfolding read_frame_def scaled_def
    using g_only p_only inb'
    by (auto simp add: nth_append cols simp del: AList.update.simps)
  show ?thesis
    using run same bufs old new by (intro exI [of _ ?st] conjI)
qed

lemma names_scaled: "map fst (scaled df) = map fst df"
  by (induction df) (auto simp: scaled_def)

lemma map_of_scaled:
  "map_of (scaled df) name =
     map_option (\<lambda>c. if name = ''gre'' then col_truediv c 800
                       else if name = ''gpa'' then col_truediv c 4 else c) (map_of df name)"
  by (induction df) (auto simp: scaled_def)

lemma col_values_truediv: "col_values (col_truediv c d) = map (\<lambda>v. v / d) (col_values c)"
  by (cases c) simp_all

lemma valid_store0: "valid_frame store0 0"
  by (simp add: valid_frame_def store0_def)

lemma read_store0:
  "read_frame store0 0 = [(''admit'', IntCol [0, 1]), (''gre'', IntCol [380, 800]),
     (''gpa'', FloatCol [3.61, 4.0]), (''rank_1'', IntCol [0, 1])]"
  by (simp add: read_frame_def store0_def)

lemma gre_store0: "map_of (read_frame store0 0) ''gre'' = Some (IntCol [380, 800])"
  by (simp add: read_store0)

lemma gpa_store0: "map_of (read_frame store0 0) ''gpa'' = Some (FloatCol [3.61, 4.0])"
  by (simp add: read_store0)

text \<open>
  C7: on a frame with the columns \<open>gre\<close> and \<open>gpa\<close> the scaling cell returns a frame
  \<open>processed\<close> with the column names of \<open>one_hot\<close>, in which \<open>gre\<close> holds the
  original values divided by 800 and \<open>gpa\<close> the original values divided by 4.0, and
  every other column is the column of \<open>one_hot\<close>. A \<open>gre\<close> value between 0 and 800 and
  a \<open>gpa\<close> value between 0 and 4.0 become values between 0 and 1.
\<close>

theorem scaling_spec:
  assumes "valid_frame st one_hot"
    and "map_of (read_frame st one_hot) ''gre'' = Some gre"
    and "map_of (read_frame st one_hot) ''gpa'' = Some gpa"
  shows "\<exists>st' processed. scaling_cell st one_hot = Inr (st', processed) \<and>
    map fst (read_frame st' processed) = map fst (read_frame st one_hot) \<and>
    (\<exists>gre'. map_of (read_frame st' processed) ''gre'' = Some gre' \<and>
       col_values gre' = map (\<lambda>v. v / 800) (col_values gre) \<and>
       (\<forall>i < length (col_values gre). 0 \<le> col_values gre ! i \<and> col_values gre ! i \<le> 800 \<longrightarrow>
          0 \<le> col_values gre' ! i \<and> col_values gre' ! i \<le> 1)) \<and>
    (\<exists>gpa'. map_of (read_frame st' processed) ''gpa'' = Some gpa' \<and>
       col_values gpa' = map (\<lambda>v. v / 4.0) (col_values gpa) \<and>
       (\<forall>i < length (col_values gpa). 0 \<le> col_values gpa ! i \<and> col_values gpa ! i \<le> 4.0 \<longrightarrow>
          0 \<le> col_values gpa' ! i \<and> col_values gpa' ! i \<le> 1)) \<and>
    (\<forall>name. name \<noteq> ''gre'' \<and> name \<noteq> ''gpa'' \<longrightarrow>
       map_of (read_frame st' processed) name = map_of (read_frame st one_hot) name)"
proof -
  from scaling_cell_frames [OF assms] obtain st' where
    run: "scaling_cell st one_hot = Inr (st', length (frames st))"
    and new: "read_frame st' (length (frames st)) = scaled (read_frame st one_hot)"
    by (elim exE conjE)
  let ?p = "length (frames st)"
  have names: "map fst (read_frame st' ?p) = map fst (read_frame st one_hot)"
    by (simp add: new names_scaled)
  have gre: "map_of (read_frame st' ?p) ''gre'' = Some (col_truediv gre 800)"
    by (simp add: new map_of_scaled assms(2))
  have gre_v: "col_values (col_truediv gre 800) = map (\<lambda>v. v / 800) (col_values gre)"
    by (rule col_values_truediv)
  have gre_r: "\<forall>i < length (col_values gre). 0 \<le> col_values gre ! i \<and> col_values gre ! i \<le> 800 \<longrightarrow>
          0 \<le> col_values (col_truediv gre 800) ! i \<and> col_values (col_truediv gre 800) ! i \<le> 1"
    by (simp add: gre_v)
  have gpa: "map_of (read_frame st' ?p) ''gpa'' = Some (col_truediv gpa 4)"
    by (simp add: new map_of_scaled assms(3))
  have gpa_v: "col_values (col_truediv gpa 4) = map (\<lambda>v. v / 4.0) (col_values gpa)"
    by (simp add: col_values_truediv)
  have gpa_r: "\<forall>i < length (col_values gpa). 0 \<le> col_values gpa ! i \<and> col_values gpa ! i \<le> 4.0 \<longrightarrow>
          0 \<le> col_values (col_truediv gpa 4) ! i \<and> col_values (col_truediv gpa 4) ! i \<le> 1"
    by (simp add: col_values_truediv)
  have rest: "\<forall>name. name \<noteq> ''gre'' \<and> name \<noteq> ''gpa'' \<longrightarrow>
       map_of (read_frame st' ?p) name = map_of (read_frame st one_hot) name"
    by (simp add: new map_of_scaled option.map_ident)
  from gre gre_v gre_r have G: "\<exists>gre'. map_of (read_frame st' ?p) ''gre'' = Some gre' \<and>
       col_values gre' = map (\<lambda>v. v / 800) (col_values gre) \<and>
       (\<forall>i < length (col_values gre). 0 \<le> col_values gre ! i \<and> col_values gre ! i \<le> 800 \<longrightarrow>
          0 \<le> col_values gre' ! i \<and> col_values gre' ! i \<le> 1)"
    by (intro exI [of _ "col_truediv gre 800"] conjI)
  from gpa gpa_v gpa_r have P: "\<exists>gpa'. map_of (read_frame st' ?p) ''gpa'' = Some gpa' \<and>
       col_values gpa' = map (\<lambda>v. v / 4.0) (col_values gpa) \<and>
       (\<forall>i < length (col_values gpa). 0 \<le> col_values gpa ! i \<and> col_values gpa ! i \<le> 4.0 \<longrightarrow>
          0 \<le> col_values gpa' ! i \<and> col_values gpa' ! i \<le> 1)"
    by (intro exI [of _ "col_truediv gpa 4"] conjI)
  from run names G P rest show ?thesis
    by (intro exI [of _ st'] exI [of _ ?p] conjI)
qed

theorem scaling_spec_witness:
  "valid_frame store0 0 \<and>
   map_of (read_frame store0 0) ''gre'' = Some (IntCol [380, 800]) \<and>
   map_of (read_frame store0 0) ''gpa'' = Some (FloatCol [3.61, 4.0]) \<and>
   (\<exists>st' processed. scaling_cell store0 0 = Inr (st', processed) \<and>
      (\<exists>gre'. map_of (read_frame st' processed) ''gre'' = Some gre' \<and>
         col_values gre' = [380 / 800, 1]) \<and>
      (\<exists>gpa'. map_of (read_frame st' processed) ''gpa'' = Some gpa' \<and>
         col_values gpa' = [3.61 / 4, 1]) \<and>
      map_of (read_frame st' processed) ''admit'' = Some (IntCol [0, 1]))"
proof -
  have a: "map_of (read_frame store0 0) ''admit'' = Some (IntCol [0, 1])"
    by (simp add: read_store0)
  from scaling_spec [OF valid_store0 gre_store0 gpa_store0] obtain st' processed gre' gpa' where
    run: "scaling_cell store0 0 = Inr (st', processed)"
    and gre: "map_of (read_frame st' processed) ''gre'' = Some gre'"
      "col_values gre' = map (\<lambda>v. v / 800) (col_values (IntCol [380, 800]))"
    and gpa: "map_of (read_frame st' processed) ''gpa'' = Some gpa'"
      "col_values gpa' = map (\<lambda>v. v / 4.0) (col_values (FloatCol [3.61, 4.0]))"
    and rest: "\<forall>name. name \<noteq> ''gre'' \<and> name \<noteq> ''gpa'' \<longrightarrow>
       map_of (read_frame st' processed) name = map_of (read_frame store0 0) name"
    by (elim exE conjE)
  from rest a have adm: "map_of (read_frame st' processed) ''admit'' = Some (IntCol [0, 1])"
    by simp
  from gre(2) have gv: "col_values gre' = [380 / 800, 1]" by simp
  from gpa(2) have pv: "col_values gpa' = [3.61 / 4, 1]" by simp
  from gre(1) gv have G: "\<exists>gre'. map_of (read_frame st' processed) ''gre'' = Some gre' \<and>
         col_values gre' = [380 / 800, 1]"
    by (intro exI [of _ gre'] conjI)
  from gpa(1) pv have P: "\<exists>gpa'. map_of (read_frame st' processed) ''gpa'' = Some gpa' \<and>
         col_values gpa' = [3.61 / 4, 1]"
    by (intro exI [of _ gpa'] conjI)
  from valid_store0 gre_store0 gpa_store0 run G P adm show ?thesis
    by (intro conjI exI [of _ st'] exI [of _ processed])
qed

text \<open>
  C10: the scaling cell leaves the frame it reads from as it was. The frame
  \<open>processed\<close> it returns is another object than \<open>one_hot\<close>; the bindings of
  \<open>one_hot\<close> and every array allocated before the cell are unchanged, so every column
  of \<open>one_hot\<close>, \<open>gre\<close> and \<open>gpa\<close> included, reads as before, while \<open>processed\<close>
  reads as the scaled table.
\<close>

theorem scaling_frame:
  assumes "valid_frame st one_hot"
    and "map_of (read_frame st one_hot) ''gre'' = Some gre"
    and "map_of (read_frame st one_hot) ''gpa'' = Some gpa"
  shows "\<exists>st' processed. scaling_cell st one_hot = Inr (st', processed) \<and>
    processed \<noteq> one_hot \<and>
    frames st' ! one_hot = frames st ! one_hot \<and>
    (\<forall>a < length (buffers st). buffers st' ! a = buffers st ! a) \<and>
    read_frame st' one_hot = read_frame st one_hot \<and>
    read_frame st' processed = scaled (read_frame st one_hot)"
proof -
  from assms(1) have ne: "length (frames st) \<noteq> one_hot"
    by (simp add: valid_frame_def)
  from scaling_cell_frames [OF assms] obtain st' where
    run: "scaling_cell st one_hot = Inr (st', length (frames st))"
    and fr: "frames st' ! one_hot = frames st ! one_hot"
    and bu: "\<forall>a < length (buffers st). buffers st' ! a = buffers st ! a"
    and old: "read_frame st' one_hot = read_frame st one_hot"
    and new: "read_frame st' (length (frames st)) = scaled (read_frame st one_hot)"
    by (elim exE conjE)
  show ?thesis
    using run ne fr bu old new by (intro exI [of _ st'] exI [of _ "length (frames st)"] conjI)
qed

theorem scaling_frame_witness:
  "valid_frame store0 0 \<and>
   map_of (read_frame store0 0) ''gre'' = Some (IntCol [380, 800]) \<and>
   map_of (read_frame store0 0) ''gpa'' = Some (FloatCol [3.61, 4.0]) \<and>
   (\<exists>st' processed. scaling_cell store0 0 = Inr (st', processed) \<and> processed \<noteq> 0 \<and>
      read_frame st' 0 = [(''admit'', IntCol [0, 1]), (''gre'', IntCol [380, 800]),
        (''gpa'', FloatCol [3.61, 4.0]), (''rank_1'', IntCol [0, 1])] \<and>
      read_frame st' processed = [(''admit'', IntCol [0, 1]), (''gre'', FloatCol [380 / 800, 1]),
        (''gpa'', FloatCol [3.61 / 4, 1]), (''rank_1'', IntCol [0, 1])])"
proof -
  have s: "scaled (read_frame store0 0) = [(''admit'', IntCol [0, 1]),
        (''gre'', FloatCol [380 / 800, 1]),
        (''gpa'', FloatCol [3.61 / 4, 1]), (''rank_1'', IntCol [0, 1])]"
    by (simp add: read_store0 scaled_def)
  from scaling_frame [OF valid_store0 gre_store0 gpa_store0] obtain st' processed where
    run: "scaling_cell store0 0 = Inr (st', processed)" and ne: "processed \<noteq> 0"
    and old: "read_frame st' 0 = read_frame store0 0"
    and new: "read_frame st' processed = scaled (read_frame store0 0)"
    by (elim exE conjE)
  from valid_store0 gre_store0 gpa_store0 run ne old [unfolded read_store0] new [unfolded s]
  show ?thesis
    by (intro conjI exI [of _ st'] exI [of _ processed])
qed

section \<open>State dicts: keys and lookups\<close>

lemma hidden_prefix_eq [simp]: "hidden_prefix j = hidden_prefix k \<longleftrightarrow> j = k"
  by (auto simp: hidden_prefix_def dest: str_nat_inj)

lemma hidden_weight_eq [simp]:
  "hidden_prefix j @ ''weight'' = hidden_prefix k @ ''weight'' \<longleftrightarrow> j = k"
  by (auto simp: hidden_prefix_def dest: str_nat_inj)

lemma hidden_bias_eq [simp]:
  "hidden_prefix j @ ''bias'' = hidden_prefix k @ ''bias'' \<longleftrightarrow> j = k"
  by (auto simp: hidden_prefix_def dest: str_nat_inj)

lemma hidden_weight_bias [simp]:
  "hidden_prefix j @ ''weight'' \<noteq> hidden_prefix k @ ''bias''"
  "hidden_prefix j @ ''bias'' \<noteq> hidden_prefix k @ ''weight''"
proof -
  have "last (hidden_prefix j @ ''weight'') \<noteq> last (hidden_prefix k @ ''bias'')" by simp
  then show "hidden_prefix j @ ''weight'' \<noteq> hidden_prefix k @ ''bias''" by metis
  have "last (hidden_prefix j @ ''bias'') \<noteq> last (hidden_prefix k @ ''weight'')" by simp
  then show "hidden_prefix j @ ''bias'' \<noteq> hidden_prefix k @ ''weight''" by metis
qed

lemma hidden_output [simp]:
  "hidden_prefix j @ s \<noteq> ''output.'' @ s'"
  "''output.'' @ s' \<noteq> hidden_prefix j @ s"
  by (simp_all add: hidden_prefix_def)

lemma hidden_not_output [simp]:
  "hidden_prefix k \<noteq> ''output.''" "''output.'' \<noteq> hidden_prefix k"
  by (simp_all add: hidden_prefix_def)

lemma map_of_layer_entries_weight:
  "map_of (layer_entries n ls) (hidden_prefix k @ ''weight'') =
     (if n \<le> k \<and> k < n + length ls then Some (weight (ls ! (k - n))) else None)"
proof (induction ls arbitrary: n)
  case Nil
  show ?case by simp
next
  case (Cons l ls)
  show ?case
  proof (cases "k = n")
    case True
    then show ?thesis by (simp add: linear_entries_def)
  next
    case False
    then show ?thesis
      using Cons.IH [of "Suc n"] by (auto simp: linear_entries_def Suc_diff_le)
  qed
qed

lemma map_of_layer_entries_bias:
  "map_of (layer_entries n ls) (hidden_prefix k @ ''bias'') =
     (if n \<le> k \<and> k < n + length ls then Some (bias (ls ! (k - n))) else None)"
proof (induction ls arbitrary: n)
  case Nil
  show ?case by simp
next
  case (Cons l ls)
  show ?case
  proof (cases "k = n")
    case True
    then show ?thesis by (simp add: linear_entries_def)
  next
    case False
    then show ?thesis
      using Cons.IH [of "Suc n"] by (auto simp: linear_entries_def Suc_diff_le)
  qed
qed

lemma map_of_layer_entries_output:
  "map_of (layer_entries n ls) (''output.'' @ s) = None"
  by (induction ls arbitrary: n) (simp_all add: linear_entries_def hidden_prefix_def)

lemma map_of_state_dict_weight:
  "map_of (state_dict m) (hidden_prefix k @ ''weight'') =
     (if k < length (hidden_layers m) then Some (weight (hidden_layers m ! k)) else None)"
  by (simp add: state_dict_def map_add_def map_of_layer_entries_weight linear_entries_def
      del: append.simps)

lemma map_of_state_dict_bias:
  "map_of (state_dict m) (hidden_prefix k @ ''bias'') =
     (if k < length (hidden_layers m) then Some (bias (hidden_layers m ! k)) else None)"
  by (simp add: state_dict_def map_add_def map_of_layer_entries_bias linear_entries_def
      del: append.simps)

lemma map_of_state_dict_output:
  "map_of (state_dict m) (''output.'' @ ''weight'') = Some (weight (output_layer m))"
  "map_of (state_dict m) (''output.'' @ ''bias'') = Some (bias (output_layer m))"
  using map_of_layer_entries_output [of 0 "hidden_layers m" "''weight''"]
    map_of_layer_entries_output [of 0 "hidden_layers m" "''bias''"]
  by (simp_all add: state_dict_def map_add_def linear_entries_def)


section \<open>Loading a state dict\<close>

lemma copy_tensor: "shape (t::tensor) = shape p \<Longrightarrow> p\<lparr>elems := elems t\<rparr> = t"
  by (rule tensor.equality) simp_all

lemma load_linear_same:
  assumes "map_of sd (prefix @ ''weight'') = Some w" and "map_of sd (prefix @ ''bias'') = Some b"
    and "shape w = shape (weight l)" and "shape b = shape (bias l)"
  shows "load_linear sd prefix l = (l\<lparr>weight := w, bias := b\<rparr>, [])"
  using assms by (simp add: load_linear_def load_tensor_def copy_tensor)


lemma load_layers_same:
  assumes "list_all2 same_shapes src ls"
    and "\<forall>j < length ls. map_of sd (hidden_prefix (n + j) @ ''weight'') = Some (weight (src ! j)) \<and>
           map_of sd (hidden_prefix (n + j) @ ''bias'') = Some (bias (src ! j))"
  shows "load_layers sd n ls =
    (map2 (\<lambda>l s. l\<lparr>weight := weight s, bias := bias s\<rparr>) ls src, [])"
  using assms
proof (induction src ls arbitrary: n rule: list_all2_induct)
  case Nil
  show ?case by simp
next
  case (Cons s src l ls)
  from Cons.prems [rule_format, of 0]
  have w: "map_of sd (hidden_prefix n @ ''weight'') = Some (weight s)"
    and b: "map_of sd (hidden_prefix n @ ''bias'') = Some (bias s)"
    by simp_all
  from Cons.hyps(1) have sh: "shape (weight s) = shape (weight l)" "shape (bias s) = shape (bias l)"
    by (simp_all add: same_shapes_def)
  have rest: "\<forall>j < length ls.
      map_of sd (hidden_prefix (Suc n + j) @ ''weight'') = Some (weight (src ! j)) \<and>
      map_of sd (hidden_prefix (Suc n + j) @ ''bias'') = Some (bias (src ! j))"
    using Cons.prems by (metis Suc_less_eq add_Suc_shift length_Cons nth_Cons_Suc)
  show ?case
    by (simp add: load_linear_same [OF w b sh] Cons.IH [OF rest])
qed


lemma layer_entries_copy:
  assumes "length ls = length src"
  shows "layer_entries n (map2 (\<lambda>l s. l\<lparr>weight := weight s, bias := bias s\<rparr>) ls src) =
         layer_entries n src"
  using assms
  by (induction ls src arbitrary: n rule: list_induct2) (simp_all add: linear_entries_def)

lemma keys_layer_entries:
  "map fst (layer_entries n ls) =
     concat (map (\<lambda>k. [hidden_prefix k @ ''weight'', hidden_prefix k @ ''bias''])
       [n ..< n + length ls])"
proof (induction ls arbitrary: n)
  case Nil
  show ?case by simp
next
  case (Cons l ls)
  have "[n ..< n + length (l # ls)] = n # [Suc n ..< Suc n + length ls]"
    by (simp add: upt_rec)
  then show ?case
    using Cons.IH [of "Suc n"] by (simp add: linear_entries_def)
qed

lemma keys_state_dict:
  "map fst (state_dict m) =
     concat (map (\<lambda>k. [hidden_prefix k @ ''weight'', hidden_prefix k @ ''bias''])
       [0 ..< length (hidden_layers m)]) @ [''output.weight'', ''output.bias'']"
  by (simp add: state_dict_def keys_layer_entries linear_entries_def)


lemma load_state_dict_result:
  "load_state_dict m sd =
     (m\<lparr>hidden_layers := fst (load_layers sd 0 (hidden_layers m)),
        output_layer := fst (load_linear sd ''output.'' (output_layer m))\<rparr>,
      if filter (\<lambda>k. k \<notin> fst ` set sd) (map fst (state_dict m)) = [] \<and>
         filter (\<lambda>k. k \<notin> fst ` set (state_dict m)) (map fst sd) = [] \<and>
         snd (load_layers sd 0 (hidden_layers m)) = [] \<and>
         snd (load_linear sd ''output.'' (output_layer m)) = []
      then Inr ()
      else Inl (RuntimeError
        \<lparr>missing_keys = filter (\<lambda>k. k \<notin> fst ` set sd) (map fst (state_dict m)),
         unexpected_keys = filter (\<lambda>k. k \<notin> fst ` set (state_dict m)) (map fst sd),
         size_mismatches = snd (load_layers sd 0 (hidden_layers m)) @
           snd (load_linear sd ''output.'' (output_layer m))\<rparr>))"
  by (simp add: load_state_dict_def case_prod_unfold Let_def)

lemma same_keys:
  assumes "length (hidden_layers m) = length (hidden_layers m')"
  shows "filter (\<lambda>k. k \<notin> fst ` set (state_dict m')) (map fst (state_dict m)) = []"
proof -
  from assms have "map fst (state_dict m) = map fst (state_dict m')"
    by (simp only: keys_state_dict)
  then have "set (map fst (state_dict m)) = fst ` set (state_dict m')"
    by (simp only: set_map)
  then show ?thesis
    by (simp only: filter_empty_conv) blast
qed

lemma load_state_dict_same:
  assumes "same_architecture src target"
  shows "load_state_dict target (state_dict src) =
    (target\<lparr>hidden_layers :=
        map2 (\<lambda>l s. l\<lparr>weight := weight s, bias := bias s\<rparr>) (hidden_layers target) (hidden_layers src),
      output_layer := (output_layer target)\<lparr>weight := weight (output_layer src),
        bias := bias (output_layer src)\<rparr>\<rparr>, Inr ())"
proof -
  from assms have hl: "list_all2 same_shapes (hidden_layers src) (hidden_layers target)"
    and out: "same_shapes (output_layer src) (output_layer target)"
    by (simp_all add: same_architecture_def)
  from hl have len: "length (hidden_layers src) = length (hidden_layers target)"
    by (rule list_all2_lengthD)
  have look: "\<forall>j < length (hidden_layers target).
      map_of (state_dict src) (hidden_prefix (0 + j) @ ''weight'') = Some (weight (hidden_layers src ! j)) \<and>
      map_of (state_dict src) (hidden_prefix (0 + j) @ ''bias'') = Some (bias (hidden_layers src ! j))"
    using len by (simp add: map_of_state_dict_weight map_of_state_dict_bias)
  have layers: "load_layers (state_dict src) 0 (hidden_layers target) =
      (map2 (\<lambda>l s. l\<lparr>weight := weight s, bias := bias s\<rparr>) (hidden_layers target) (hidden_layers src), [])"
    using hl look by (rule load_layers_same)
  have outl: "load_linear (state_dict src) ''output.'' (output_layer target) =
      ((output_layer target)\<lparr>weight := weight (output_layer src), bias := bias (output_layer src)\<rparr>, [])"
    using out
    by (intro load_linear_same map_of_state_dict_output) (simp_all add: same_shapes_def)
  have miss: "filter (\<lambda>k. k \<notin> fst ` set (state_dict src)) (map fst (state_dict target)) = []"
    using len by (intro same_keys) simp
  have unex: "filter (\<lambda>k. k \<notin> fst ` set (state_dict target)) (map fst (state_dict src)) = []"
    using len by (intro same_keys) simp
  show ?thesis
    unfolding load_state_dict_result by (simp only: layers outl miss unex fst_conv snd_conv if_True simp_thms)
qed

lemma state_dict_loaded:
  assumes "length (hidden_layers target) = length (hidden_layers src)"
  shows "state_dict (target\<lparr>hidden_layers :=
        map2 (\<lambda>l s. l\<lparr>weight := weight s, bias := bias s\<rparr>) (hidden_layers target) (hidden_layers src),
      output_layer := (output_layer target)\<lparr>weight := weight (output_layer src),
        bias := bias (output_layer src)\<rparr>\<rparr>) = state_dict src"
  using assms by (simp add: state_dict_def layer_entries_copy linear_entries_def)


section \<open>Networks of given sizes\<close>

lemma Network_layers:
  assumes "Network init input_size output_size hidden = Inr m"
  shows "hidden \<noteq> []" and "length (hidden_layers m) = length hidden"
    and "k < length hidden \<Longrightarrow>
      hidden_layers m ! k = Linear init (hidden_prefix k) ((input_size # hidden) ! k) (hidden ! k)"
    and "output_layer m = Linear init ''output.'' (last hidden) output_size"
proof -
  from assms show ne: "hidden \<noteq> []"
    by (auto simp: Network_def split: if_splits)
  with assms have m: "m = \<lparr>hidden_layers =
      map (\<lambda>(k, n_in, n_out). Linear init (hidden_prefix k) n_in n_out)
        (enumerate 0 (zip (input_size # hidden) hidden)),
      output_layer = Linear init ''output.'' (last hidden) output_size\<rparr>"
    by (simp add: Network_def)
  show "length (hidden_layers m) = length hidden"
    by (simp add: m)
  show "output_layer m = Linear init ''output.'' (last hidden) output_size"
    by (simp add: m)
  show "hidden_layers m ! k = Linear init (hidden_prefix k) ((input_size # hidden) ! k) (hidden ! k)"
    if "k < length hidden"
    using that by (simp add: m nth_enumerate_eq)
qed

lemma Network_same_architecture:
  assumes "Network init input_size output_size hidden = Inr m"
    and "Network init' input_size output_size hidden = Inr m'"
  shows "same_architecture m m'"
proof -
  have "list_all2 same_shapes (hidden_layers m) (hidden_layers m')"
    by (rule list_all2_all_nthI)
      (simp_all add: Network_layers [OF assms(1)] Network_layers [OF assms(2)] same_shapes_def
        Linear_def)
  then show ?thesis
    by (simp add: same_architecture_def Network_layers [OF assms(1)] Network_layers [OF assms(2)]
        same_shapes_def Linear_def)
qed

lemma Network_reloaded:
  assumes "Network init input_size output_size hidden = Inr fresh"
    and "Network init' input_size output_size hidden = Inr trained"
  shows "load_state_dict fresh (state_dict trained) = (trained, Inr ())"
proof -
  note f = Network_layers [OF assms(1)] and t = Network_layers [OF assms(2)]
  have arch: "same_architecture trained fresh"
    using assms(2,1) by (rule Network_same_architecture)
  have "map2 (\<lambda>l s. l\<lparr>weight := weight s, bias := bias s\<rparr>) (hidden_layers fresh)
      (hidden_layers trained) = hidden_layers trained"
    by (rule nth_equalityI) (simp_all add: f t Linear_def)
  moreover have "(output_layer fresh)\<lparr>weight := weight (output_layer trained),
      bias := bias (output_layer trained)\<rparr> = output_layer trained"
    by (simp add: f t Linear_def)
  ultimately show ?thesis
    by (simp add: load_state_dict_same [OF arch])
qed

lemma load_checkpoint_saved:
  assumes "Network init' input_size output_size hidden = Inr model"
  shows "load_checkpoint init
      (torch_save (CheckpointFile (make_checkpoint input_size output_size model)) filepath fs)
      filepath = Inr model"
proof -
  from Network_layers(1) [OF assms] have ne: "hidden \<noteq> []" .
  have outs: "map out_features (hidden_layers model) = hidden"
    by (rule nth_equalityI) (simp_all add: Network_layers [OF assms] Linear_def)
  from ne obtain fresh where fresh: "Network init input_size output_size hidden = Inr fresh"
    by (simp add: Network_def)
  from Network_reloaded [OF fresh assms] show ?thesis
    by (simp add: load_checkpoint_def torch_load_def torch_save_def make_checkpoint_def outs fresh)
qed









text \<open>
  The model agrees with the outputs recorded in the notebook: the keys printed for the
  trained network, and the error printed when its state dict is loaded into a network
  with the hidden sizes 400, 200, 100.
\<close>

lemma str_nat_digits:
  "str_nat 0 = ''0''" "str_nat (Suc 0) = ''1''" "str_nat (Suc (Suc 0)) = ''2''"
  by code_simp+

lemma notebook_network:
  assumes "Network init 784 10 [h0, h1, h2] = Inr model"
  shows "model = \<lparr>hidden_layers =
      [Linear init (hidden_prefix 0) 784 h0, Linear init (hidden_prefix (Suc 0)) h0 h1,
       Linear init (hidden_prefix (Suc (Suc 0))) h1 h2],
      output_layer = Linear init ''output.'' h2 10\<rparr>"
  using assms by (simp add: Network_def enumerate_eq_zip upt_rec)

lemma notebook_keys:
  assumes "Network init 784 10 [512, 256, 128] = Inr trained"
  shows "map fst (state_dict trained) =
    [''hidden_layers.0.weight'', ''hidden_layers.0.bias'', ''hidden_layers.1.weight'',
     ''hidden_layers.1.bias'', ''hidden_layers.2.weight'', ''hidden_layers.2.bias'',
     ''output.weight'', ''output.bias'']"
  unfolding notebook_network [OF assms]
  by (simp add: state_dict_def linear_entries_def hidden_prefix_def str_nat_digits)

lemma notebook_size_mismatch:
  assumes "Network init 784 10 [400, 200, 100] = Inr model"
    and "Network init' 784 10 [512, 256, 128] = Inr trained"
  shows "snd (load_state_dict model (state_dict trained)) =
    Inl (RuntimeError \<lparr>missing_keys = [], unexpected_keys = [], size_mismatches =
      [SizeMismatch ''hidden_layers.0.weight'' [512, 784] [400, 784],
       SizeMismatch ''hidden_layers.0.bias'' [512] [400],
       SizeMismatch ''hidden_layers.1.weight'' [256, 512] [200, 400],
       SizeMismatch ''hidden_layers.1.bias'' [256] [200],
       SizeMismatch ''hidden_layers.2.weight'' [128, 256] [100, 200],
       SizeMismatch ''hidden_layers.2.bias'' [128] [100],
       SizeMismatch ''output.weight'' [10, 128] [10, 100]]\<rparr>)"
  unfolding notebook_network [OF assms(1)] notebook_network [OF assms(2)]
  by (simp add: load_state_dict_def state_dict_def load_linear_def load_tensor_def
      linear_entries_def Linear_def hidden_prefix_def str_nat_digits Let_def)

section \<open>Saving and loading: round trips\<close>





lemma same_architecture_example: "same_architecture (net_3_2_2 1) (net_3_2_2 0)"
  by (simp add: same_architecture_def same_shapes_def net_3_2_2_def)

text \<open>
  C4: the cells
  \<^verbatim>\<open>
  torch.save(model.state_dict(), 'checkpoint.pth')
  state_dict = torch.load('checkpoint.pth')
  model.load_state_dict(state_dict)
  \<close>
  For every model, the file loads as the state dict that was saved, with the same keys
  and tensors, and \<^verbatim>\<open>load_state_dict\<close> of it into a model \<open>target\<close> of the same
  architecture (in the notebook, the saved model itself) succeeds and leaves a model
  whose state dict is the saved one: every weight and bias of the restored model is
  the saved tensor.
\<close>

theorem parameters_roundtrip:
  assumes "same_architecture model target"
  shows "torch_load (torch_save (StateDictFile (state_dict model)) ''checkpoint.pth'' fs)
           ''checkpoint.pth'' = Inr (StateDictFile (state_dict model)) \<and>
         (\<exists>restored. load_state_dict target (state_dict model) = (restored, Inr ()) \<and>
            state_dict restored = state_dict model \<and>
            list_all2 (\<lambda>l s. weight l = weight s \<and> bias l = bias s)
              (hidden_layers restored) (hidden_layers model) \<and>
            weight (output_layer restored) = weight (output_layer model) \<and>
            bias (output_layer restored) = bias (output_layer model))"
proof -
  let ?restored = "target\<lparr>hidden_layers :=
        map2 (\<lambda>l s. l\<lparr>weight := weight s, bias := bias s\<rparr>) (hidden_layers target) (hidden_layers model),
      output_layer := (output_layer target)\<lparr>weight := weight (output_layer model),
        bias := bias (output_layer model)\<rparr>\<rparr>"
  from assms have "list_all2 same_shapes (hidden_layers model) (hidden_layers target)"
    by (simp add: same_architecture_def)
  then have len: "length (hidden_layers target) = length (hidden_layers model)"
    by (simp add: list_all2_lengthD)
  have saved: "torch_load (torch_save (StateDictFile (state_dict model)) ''checkpoint.pth'' fs)
           ''checkpoint.pth'' = Inr (StateDictFile (state_dict model))"
    by (simp add: torch_load_def torch_save_def)
  have run: "load_state_dict target (state_dict model) = (?restored, Inr ())"
    using assms by (rule load_state_dict_same)
  have sd: "state_dict ?restored = state_dict model"
    using len by (rule state_dict_loaded)
  have layers: "list_all2 (\<lambda>l s. weight l = weight s \<and> bias l = bias s)
      (hidden_layers ?restored) (hidden_layers model)"
    using len by (intro list_all2_all_nthI) simp_all
  have out: "weight (output_layer ?restored) = weight (output_layer model)"
      "bias (output_layer ?restored) = bias (output_layer model)"
    by simp_all
  from saved run sd layers out show ?thesis
    by (intro conjI exI [of _ ?restored])
qed

theorem parameters_roundtrip_witness:
  "same_architecture (net_3_2_2 1) (net_3_2_2 0) \<and>
   load_state_dict (net_3_2_2 0) (state_dict (net_3_2_2 1)) = (net_3_2_2 1, Inr ())"
proof -
  from parameters_roundtrip [OF same_architecture_example, of Map.empty]
  obtain restored where
    run: "load_state_dict (net_3_2_2 0) (state_dict (net_3_2_2 1)) = (restored, Inr ())"
    by (elim exE conjE)
  from load_state_dict_same [OF same_architecture_example] run
  have "restored = net_3_2_2 1"
    by (simp add: net_3_2_2_def)
  with run same_architecture_example show ?thesis by simp
qed

text \<open>
  The notebook's saving cell writes the sizes 784 and 10: for a network of these sizes,
  whatever its hidden layers and parameter values, \<^verbatim>\<open>load_checkpoint\<close> of the file the
  cell wrote returns the network.
\<close>

lemma checkpoint_cell_roundtrip:
  assumes "Network init' 784 10 hidden = Inr model"
  shows "load_checkpoint init (checkpoint_cell model fs) ''checkpoint.pth'' = Inr model"
  unfolding checkpoint_cell_def using assms by (rule load_checkpoint_saved)



section \<open>The training passes\<close>

lemma training_pass_result:
  "training_pass lib st (images, labels) =
     (let x = view lib images;
          g = autograd lib (params st) x labels;
          l = loss_fn lib (net lib (params st) x) labels
      in (st\<lparr>params := snd (update lib (opt st) (params st) g),
              opt := fst (update lib (opt st) (params st) g),
              grads := Some g,
              trace := trace st @ pass_events lib (params st) (images, labels)\<rparr>,
          \<lparr>item = l, loss_graph = (params st, x, labels)\<rparr>))"
  by (simp add: training_pass_def zero_grad_def model_call_def criterion_def backward_def
      optimizer_step_def pass_events_def Let_def case_prod_unfold)

lemma training_pass_fashion_result:
  "training_pass_fashion lib st (images, labels) =
     (let x = view lib images;
          g = autograd lib (params st) x labels;
          l = loss_fn lib (net lib (params st) x) labels
      in (st\<lparr>params := snd (update lib (opt st) (params st) g),
              opt := fst (update lib (opt st) (params st) g),
              grads := Some g,
              trace := trace st @ pass_events_fashion lib (params st) (images, labels)\<rparr>,
          \<lparr>item = l, loss_graph = (params st, x, labels)\<rparr>))"
  by (simp add: training_pass_fashion_def classifier_call_def zero_grad_def model_call_def
      criterion_def backward_def optimizer_step_def pass_events_fashion_def Let_def
      case_prod_unfold)

text \<open>
  C9: from the same parameters, gradients, optimizer state and batch, the pass that
  zeroes the gradients before the forward pass and the pass that zeroes them between
  the loss and the backward pass leave the same gradients, namely the gradient of the
  batch at the parameters before the pass, the same updated parameters and the same
  optimizer state, and compute the same loss. (They differ in the order of the calls
  only.)
\<close>

theorem training_passes_equivalent:
  "params (fst (training_pass lib st batch)) = params (fst (training_pass_fashion lib st batch)) \<and>
   grads (fst (training_pass lib st batch)) = grads (fst (training_pass_fashion lib st batch)) \<and>
   opt (fst (training_pass lib st batch)) = opt (fst (training_pass_fashion lib st batch)) \<and>
   snd (training_pass lib st batch) = snd (training_pass_fashion lib st batch) \<and>
   grads (fst (training_pass lib st batch)) =
     Some (autograd lib (params st) (view lib (fst batch)) (snd batch))"
  by (cases batch) (simp add: training_pass_result training_pass_fashion_result Let_def)

theorem training_passes_equivalent_witness:
  "params (fst (training_pass toy (toy_session (Some [7])) (1, 2))) = [6 / 5] \<and>
   params (fst (training_pass_fashion toy (toy_session (Some [7])) (1, 2))) = [6 / 5] \<and>
   grads (fst (training_pass toy (toy_session (Some [7])) (1, 2))) = Some [- 2] \<and>
   grads (fst (training_pass_fashion toy (toy_session (Some [7])) (1, 2))) = Some [- 2]"
  using training_passes_equivalent [of toy "toy_session (Some [7])" "(1, 2)"]
  by (simp add: training_pass_result toy_def toy_session_def Let_def)

section \<open>The loop over epochs and batches\<close>

lemma follows_training_pass: "follows (training_pass lib) (pass_events lib) lib"
  by (simp add: follows_def training_pass_result updated_def batch_loss_def Let_def
      case_prod_unfold)

lemma follows_training_pass_fashion:
  "follows (training_pass_fashion lib) (pass_events_fashion lib) lib"
  by (simp add: follows_def training_pass_fashion_result updated_def batch_loss_def Let_def
      case_prod_unfold)

lemma batch_loop_follows:
  assumes "follows pass events lib"
  shows "trace (fst (batch_loop pass st r bs)) =
      trace st @ batch_events events lib (params st, opt st) bs \<and>
    (params (fst (batch_loop pass st r bs)), opt (fst (batch_loop pass st r bs))) =
      foldl (updated lib) (params st, opt st) bs \<and>
    snd (batch_loop pass st r bs) = r + sum_list (batch_losses lib (params st, opt st) bs)"
proof (induction bs arbitrary: st r)
  case Nil
  show ?case by simp
next
  case (Cons b bs)
  let ?st = "fst (pass st b)" and ?l = "item (snd (pass st b))"
  from assms [unfolded follows_def, rule_format, of st b]
  have tr: "trace ?st = trace st @ events (params st) b"
    and m: "(params ?st, opt ?st) = updated lib (params st, opt st) b"
    and l: "?l = batch_loss lib (params st) b"
    by simp_all
  from Cons.IH [of ?st "r + ?l"] show ?case
    unfolding m by (simp add: case_prod_unfold Let_def tr l)
qed

lemma epoch_follows:
  assumes "follows pass events lib" and "bs \<noteq> []"
  shows "\<exists>st'. epoch pass st bs = Inr st' \<and>
    trace st' = trace st @ epoch_events events lib (params st, opt st) bs \<and>
    (params st', opt st') = foldl (updated lib) (params st, opt st) bs"
proof -
  let ?st = "print_loss (fst (batch_loop pass st 0 bs))
    (snd (batch_loop pass st 0 bs) / real (length bs))"
  from assms(2) have run: "epoch pass st bs = Inr ?st"
    by (simp add: epoch_def case_prod_unfold Let_def)
  from batch_loop_follows [OF assms(1), of st 0 bs]
  have tr: "trace ?st = trace st @ epoch_events events lib (params st, opt st) bs"
    and m: "(params ?st, opt ?st) = foldl (updated lib) (params st, opt st) bs"
    by (simp_all add: print_loss_def epoch_events_def)
  from run tr m show ?thesis by (intro exI [of _ ?st] conjI)
qed

lemma epoch_loop_follows:
  assumes "follows pass events lib" and "\<forall>e \<in> set es. trainloader e \<noteq> []"
  shows "\<exists>st'. epoch_loop pass trainloader st es = Inr st' \<and>
    trace st' = trace st @ run_events events lib trainloader (params st, opt st) es \<and>
    (params st', opt st') = run_model lib trainloader (params st, opt st) es"
  using assms(2)
proof (induction es arbitrary: st)
  case Nil
  show ?case by simp
next
  case (Cons e es)
  from Cons.prems have ne: "trainloader e \<noteq> []" and rest: "\<forall>e \<in> set es. trainloader e \<noteq> []"
    by simp_all
  from epoch_follows [OF assms(1) ne, of st] obtain st1 where
    run1: "epoch pass st (trainloader e) = Inr st1"
    and tr1: "trace st1 = trace st @ epoch_events events lib (params st, opt st) (trainloader e)"
    and m1: "(params st1, opt st1) = foldl (updated lib) (params st, opt st) (trainloader e)"
    by (elim exE conjE)
  from Cons.IH [OF rest, of st1] obtain st' where
    run: "epoch_loop pass trainloader st1 es = Inr st'"
    and tr: "trace st' = trace st1 @ run_events events lib trainloader (params st1, opt st1) es"
    and m: "(params st', opt st') = run_model lib trainloader (params st1, opt st1) es"
    by (elim exE conjE)
  have "epoch_loop pass trainloader st (e # es) = Inr st'"
    using run1 run by simp
  moreover have "trace st' = trace st @ run_events events lib trainloader (params st, opt st) (e # es)"
    using tr tr1 unfolding m1 by simp
  moreover have "(params st', opt st') = run_model lib trainloader (params st, opt st) (e # es)"
    using m unfolding m1 by simp
  ultimately show ?case by (intro exI [of _ st'] conjI)
qed

lemma length_batch_losses: "length (batch_losses lib m bs) = length bs"
  by (induction bs arbitrary: m) simp_all

text \<open>
  C3: for every number of epochs and every train loader that yields batches in each of
  these epochs, as a loader over the training set does, both loops return. What they
  add to the trace is, epoch by epoch and for each batch of the epoch in turn, one
  gradient zeroing, one forward pass through the model, one evaluation of the
  criterion on the output of that forward pass and the labels of the batch, one
  backward pass and one optimizer step, in the order of the notebook, and after the
  last batch of the epoch one printed line, the sum of the batch losses of the epoch
  divided by the number of batches. The model after the loop is the one the optimizer
  steps leave.
\<close>

theorem training_loop_calls:
  assumes "\<forall>e < epochs. trainloader e \<noteq> []"
  shows "(\<exists>st'. train lib epochs trainloader st = Inr st' \<and>
            trace st' = trace st @
              run_events (pass_events lib) lib trainloader (params st, opt st) [0 ..< epochs] \<and>
            (params st', opt st') =
              run_model lib trainloader (params st, opt st) [0 ..< epochs]) \<and>
         (\<exists>st'. train_fashion lib epochs trainloader st = Inr st' \<and>
            trace st' = trace st @
              run_events (pass_events_fashion lib) lib trainloader (params st, opt st)
                [0 ..< epochs] \<and>
            (params st', opt st') =
              run_model lib trainloader (params st, opt st) [0 ..< epochs])"
proof -
  from assms have ne: "\<forall>e \<in> set [0 ..< epochs]. trainloader e \<noteq> []" by simp
  show ?thesis
    unfolding train_def train_fashion_def
    using epoch_loop_follows [OF follows_training_pass ne]
      epoch_loop_follows [OF follows_training_pass_fashion ne]
    by (intro conjI)
qed


lemma toy_loader_nonempty: "\<forall>e < 2. toy_loader e \<noteq> []"
  by (simp add: toy_loader_def)

lemma toy_run_events:
  "run_events (pass_events toy) toy toy_loader ([1], ()) [0 ..< 2] =
     [ZeroGrad, Forward 1 [1], Criterion [1] 2 1, Backward, Step,
      ZeroGrad, Forward 2 [12 / 5], Criterion [12 / 5] 4 (64 / 25), Backward, Step,
      Print (89 / 50),
      ZeroGrad, Forward 1 [46 / 25], Criterion [46 / 25] 2 (16 / 625), Backward, Step,
      ZeroGrad, Forward 2 [468 / 125], Criterion [468 / 125] 4 (1024 / 15625), Backward, Step,
      Print (712 / 15625)]"
  by (simp add: upt_rec toy_loader_def epoch_events_def pass_events_def updated_def
      batch_loss_def toy_def Let_def)

lemma toy_run_model: "run_model toy toy_loader ([1], ()) [0 ..< 2] = ([1234 / 625], ())"
  by (simp add: upt_rec toy_loader_def updated_def toy_def Let_def)

theorem training_loop_calls_witness:
  "toy_loader 0 \<noteq> [] \<and> toy_loader 1 \<noteq> [] \<and>
   (\<exists>st'. train toy 2 toy_loader (toy_session None) = Inr st' \<and>
      trace st' =
        [ZeroGrad, Forward 1 [1], Criterion [1] 2 1, Backward, Step,
         ZeroGrad, Forward 2 [12 / 5], Criterion [12 / 5] 4 (64 / 25), Backward, Step,
         Print (89 / 50),
         ZeroGrad, Forward 1 [46 / 25], Criterion [46 / 25] 2 (16 / 625), Backward, Step,
         ZeroGrad, Forward 2 [468 / 125], Criterion [468 / 125] 4 (1024 / 15625), Backward, Step,
         Print (712 / 15625)] \<and>
      params st' = [1234 / 625])"
proof -
  have s: "params (toy_session None) = [1]" "opt (toy_session None) = ()"
    "trace (toy_session None) = []"
    by (simp_all add: toy_session_def)
  from training_loop_calls [OF toy_loader_nonempty, of toy "toy_session None"]
  obtain st' where run: "train toy 2 toy_loader (toy_session None) = Inr st'"
    and tr: "trace st' = trace (toy_session None) @
      run_events (pass_events toy) toy toy_loader
        (params (toy_session None), opt (toy_session None)) [0 ..< 2]"
    and m: "(params st', opt st') =
      run_model toy toy_loader (params (toy_session None), opt (toy_session None)) [0 ..< 2]"
    by (elim exE conjE)
  from tr have tr': "trace st' =
        [ZeroGrad, Forward 1 [1], Criterion [1] 2 1, Backward, Step,
         ZeroGrad, Forward 2 [12 / 5], Criterion [12 / 5] 4 (64 / 25), Backward, Step,
         Print (89 / 50),
         ZeroGrad, Forward 1 [46 / 25], Criterion [46 / 25] 2 (16 / 625), Backward, Step,
         ZeroGrad, Forward 2 [468 / 125], Criterion [468 / 125] 4 (1024 / 15625), Backward, Step,
         Print (712 / 15625)]"
    unfolding s toy_run_events by simp
  from m have p: "params st' = [1234 / 625]"
    unfolding s toy_run_model by simp
  have ne: "toy_loader 0 \<noteq> []" "toy_loader 1 \<noteq> []"
    by (simp_all add: toy_loader_def)
  from ne run tr' p show ?thesis
    by (intro conjI exI [of _ st'])
qed

text \<open>
  The hypothesis is needed: with no batch in an epoch the loops divide by zero. (A
  loader over the training set of the notebooks always yields batches.)
\<close>

lemma train_empty_loader:
  "train toy 1 empty_loader (toy_session None) = Inl ZeroDivisionError"
  "train_fashion toy 1 empty_loader (toy_session None) = Inl ZeroDivisionError"
  by (simp_all add: train_def train_fashion_def epoch_def empty_loader_def)

end
